theory Spec2Isabelle
  imports Complex_Main
begin

section \<open>Python values, exceptions and results\<close>

text \<open>
  The exceptions the modelled code can raise itself: the explicit \<open>ValueError\<close> of
  \<open>_store_accuracies\<close>, the \<open>AttributeError\<close> of reading an attribute that was never
  assigned, the \<open>IndexError\<close> of indexing a sequence that is too short, the
  \<open>ZeroDivisionError\<close> of an average over no samples, the \<open>KeyError\<close> of a missing
  dictionary key and the \<open>TypeError\<close> of subscripting a number.
\<close>

datatype error =
  AttributeError | ValueError | IndexError | ZeroDivisionError | KeyError | TypeError

text \<open>
  A method that mutates the trainer either returns normally with the new state
  (\<open>Inr\<close>) or raises, and then the state reached at the raise is kept beside the
  exception (\<open>Inl\<close>).
\<close>

type_synonym 's result = "error \<times> 's + 's"

definition then_do :: "'s result \<Rightarrow> ('s \<Rightarrow> 's result) \<Rightarrow> 's result" where
  "then_do r f = (case r of Inl x \<Rightarrow> Inl x | Inr s \<Rightarrow> f s)"

text \<open>
  The values that reach the \<open>resume_from\<close> parameter: a string, or a tuple (which is
  what a trailing comma builds). Truthiness is Python's: empty strings and empty tuples
  are false.
\<close>

datatype pyval = PStr string | PTuple "pyval list"

fun truthy :: "pyval \<Rightarrow> bool" where
  "truthy (PStr s) = (s \<noteq> [])"
| "truthy (PTuple vs) = (vs \<noteq> [])"

text \<open>\<open>os.path.join\<close> on POSIX, for a second component that is a relative path.\<close>

definition path_join :: "string \<Rightarrow> string \<Rightarrow> string" where
  "path_join a b = (if a = [] then b else if last a = CHR ''/'' then a @ b else a @ ''/'' @ b)"

text \<open>\<open>range(start, stop)\<close> over Python's unbounded integers.\<close>

definition py_range :: "int \<Rightarrow> int \<Rightarrow> int list" where
  "py_range start stop = [start..stop - 1]"

text \<open>
  Decimal rendering of an integer, as \<open>'{}'.format\<close> prints it. The first argument of
  \<open>digits\<close> bounds the number of digits; a number \<open>n\<close> has at most \<open>n + 1\<close>.
\<close>

fun digits :: "nat \<Rightarrow> nat \<Rightarrow> string" where
  "digits 0 n = []"
| "digits (Suc fuel) n =
     (if n < 10 then [char_of (48 + n)]
      else digits fuel (n div 10) @ [char_of (48 + n mod 10)])"

definition str_int :: "int \<Rightarrow> string" where
  "str_int i = (if i < 0 then CHR ''-'' # digits (Suc (nat (- i))) (nat (- i))
                else digits (Suc (nat i)) (nat i))"

section \<open>Metric aggregation\<close>

text \<open>
  Modelled from the spec: \<open>utils.AverageMeter\<close> is not among the sources. The meter
  aggregates metrics: it has a reset (zero) state, \<open>update(val, n=1)\<close> adds a value
  weighted by the batch size, and \<open>avg\<close> is the batch-size-weighted average, the
  weighted sum over the count. Dividing by a zero count raises, as Python's division
  does. Floating-point numbers are idealised as reals.
\<close>

record AverageMeter =
  avg :: real
  sum_val :: real
  cnt :: nat

definition reset :: "AverageMeter" where
  "reset = \<lparr>avg = 0, sum_val = 0, cnt = 0\<rparr>"

definition update :: "real \<Rightarrow> nat \<Rightarrow> AverageMeter \<Rightarrow> error + AverageMeter" where
  "update val n m =
     (let s = sum_val m + val * real n; c = cnt m + n
      in if c = 0 then Inl ZeroDivisionError
         else Inr \<lparr>avg = s / real c, sum_val = s, cnt = c\<rparr>)"

section \<open>The trainer and the objects around it\<close>

record config =
  save :: string
  seed :: int
  search_epochs :: int
  evaluation_epochs :: int
  grad_clip :: real

record errors_dict =
  train_acc :: "real list"
  train_loss :: "real list"
  valid_acc :: "real list"
  valid_loss :: "real list"
  test_acc :: "real list"
  test_loss :: "real list"
  runtime :: "real list"
  params :: real

datatype cfg_section = Search | Evaluation

datatype scheduler = CosineAnnealingLR int

record Checkpointer =
  save_dir :: string

record PeriodicCheckpointer =
  period :: int
  max_iter :: int

text \<open>
  The file system as \<open>log_to_json\<close> sees it: the directories that exist and the JSON
  files, each holding the dictionary that was dumped into it.
\<close>

record filesystem =
  dirs :: "string set"
  files :: "string \<rightharpoonup> errors_dict"

text \<open>
  The calls that leave the trainer, in the order they are made. \<open>Forward g\<close> is a
  forward pass of the architecture at test time, \<open>g\<close> telling whether gradients are
  enabled; \<open>TrainBatch\<close> is one optimisation step of the retraining loop.
\<close>

datatype event =
    BeforeTraining
  | NewEpoch int
  | Step
  | SchedulerStep
  | PeriodicCheckpointerStep int int int
  | TestStatistics
  | LogToJson
  | AfterTraining
  | ResumeOrLoad string pyval
  | GetFinalArchitecture
  | Query
  | ArchTo
  | ResetWeights
  | ArchTrain
  | TrainBatch bool
  | ArchEval
  | Forward bool

type_synonym ('x, 'y) queue = "('x \<times> 'y) list"


text \<open>
  Everything the trainer calls but does not implement lives in an opaque world \<open>'w\<close>:
  the optimizer and its search space, the learning-rate scheduler, the checkpoint
  library, the architecture being retrained. The record below gives, for each such call,
  its effect on the world and what it returns; \<open>time\<close> gives the clock reading of the
  \<open>k\<close>-th call of \<open>time.time()\<close>. The helpers \<open>utils.accuracy\<close> (with
  \<open>topk=(1, 5)\<close>), \<open>utils.get_train_val_loaders\<close>, \<open>logits.size(0)\<close> and
  \<open>input.size(0)\<close> are parameters as well. Of the architecture, \<open>set_training\<close> is
  \<open>train()\<close> and \<open>eval()\<close>, \<open>train_batch\<close> is one optimisation step on a batch (with or
  without gradient clipping) returning the logits, and \<open>forward\<close> is a forward pass.
\<close>

record ('w, 'x, 'y, 'l) env =
  using_step_function :: bool
  get_model_size :: "'w \<Rightarrow> real"
  before_training :: "'w \<Rightarrow> 'w"
  new_epoch :: "int \<Rightarrow> 'w \<Rightarrow> 'w"
  step :: "'x \<times> 'y \<Rightarrow> 'x \<times> 'y \<Rightarrow> 'w \<Rightarrow> ('l \<times> 'l \<times> real \<times> real) \<times> 'w"
  train_statistics :: "'w \<Rightarrow> real \<times> real \<times> real \<times> real"
  test_statistics :: "'w \<Rightarrow> real list"
  after_training :: "'w \<Rightarrow> 'w"
  scheduler_step :: "'w \<Rightarrow> 'w"
  resume_or_load :: "string \<Rightarrow> pyval \<Rightarrow> 'w \<Rightarrow> (string \<rightharpoonup> int) \<times> 'w"
  has_checkpoint :: "string \<Rightarrow> 'w \<Rightarrow> bool"
  periodic_step :: "string \<Rightarrow> PeriodicCheckpointer \<Rightarrow> int \<Rightarrow> 'w \<Rightarrow> 'w"
  accuracy :: "'l \<Rightarrow> 'y \<Rightarrow> real \<times> real"
  size0 :: "'l \<Rightarrow> nat"
  get_train_val_loaders ::
    "cfg_section \<Rightarrow> ('x, 'y) queue \<times> ('x, 'y) queue \<times> ('x, 'y) queue"
  time :: "nat \<Rightarrow> real"
  queryable :: "'w \<Rightarrow> bool"
  query :: "'w \<Rightarrow> 'w"
  reset_weights :: "'w \<Rightarrow> 'w"
  set_training :: "bool \<Rightarrow> 'w \<Rightarrow> 'w"
  train_batch :: "bool \<Rightarrow> 'x \<times> 'y \<Rightarrow> 'w \<Rightarrow> 'l \<times> 'w"
  forward :: "'x \<Rightarrow> 'w \<Rightarrow> 'l"
  input_size :: "'x \<Rightarrow> nat"

text \<open>
  The attributes of a \<open>Trainer\<close>. An attribute that \<open>__init__\<close> does not assign
  (\<open>scheduler\<close>, \<open>checkpointer\<close>, \<open>periodic_checkpointer\<close>) is an option, \<open>None\<close>
  while the object has no such attribute. The world, the file system, the number of clock
  readings taken and the trace of outgoing calls are carried along with the object.
\<close>

record ('w, 'x, 'y) trainer =
  config :: config
  epochs :: int
  train_queue :: "('x, 'y) queue"
  valid_queue :: "('x, 'y) queue"
  test_queue :: "('x, 'y) queue"
  train_top1 :: AverageMeter
  train_top5 :: AverageMeter
  train_loss_meter :: AverageMeter
  val_top1 :: AverageMeter
  val_top5 :: AverageMeter
  val_loss_meter :: AverageMeter
  errors :: errors_dict
  scheduler :: "scheduler option"
  checkpointer :: "Checkpointer option"
  periodic_checkpointer :: "PeriodicCheckpointer option"
  world :: 'w
  fs :: filesystem
  clock :: nat
  events :: "event list"

definition emit :: "event \<Rightarrow> ('w, 'x, 'y) trainer \<Rightarrow> ('w, 'x, 'y) trainer" where
  "emit ev t = t\<lparr>events := events t @ [ev]\<rparr>"

definition prepare_dataloaders ::
  "('w, 'x, 'y, 'l) env \<Rightarrow> cfg_section \<Rightarrow> ('w, 'x, 'y) trainer \<Rightarrow> ('w, 'x, 'y) trainer" where
  "prepare_dataloaders env sec t =
     (case get_train_val_loaders env sec of (trq, vq, teq) \<Rightarrow>
        t\<lparr>train_queue := trq, valid_queue := vq, test_queue := teq\<rparr>)"

text \<open>\<open>Trainer.__init__\<close>, for a given world and file system.\<close>

definition init ::
  "('w, 'x, 'y, 'l) env \<Rightarrow> config \<Rightarrow> 'w \<Rightarrow> filesystem \<Rightarrow> ('w, 'x, 'y) trainer" where
  "init env cfg w f =
     prepare_dataloaders env Search
       \<lparr>config = cfg, epochs = search_epochs cfg,
        train_queue = [], valid_queue = [], test_queue = [],
        train_top1 = reset, train_top5 = reset, train_loss_meter = reset,
        val_top1 = reset, val_top5 = reset, val_loss_meter = reset,
        errors = \<lparr>train_acc = [], train_loss = [], valid_acc = [], valid_loss = [],
                  test_acc = [], test_loss = [], runtime = [],
                  params = get_model_size env w\<rparr>,
        scheduler = None, checkpointer = None, periodic_checkpointer = None,
        world = w, fs = f, clock = 0, events = []\<rparr>"

text \<open>
  \<open>_setup_checkpointers\<close>. The checkpoint that \<open>resume_or_load\<close> returns is a
  dictionary; only its integer entries matter here.
\<close>

definition setup_checkpointers ::
  "('w, 'x, 'y, 'l) env \<Rightarrow> pyval \<Rightarrow> bool \<Rightarrow> ('w, 'x, 'y) trainer
     \<Rightarrow> int \<times> ('w, 'x, 'y) trainer" where
  "setup_checkpointers env resume_from search_flag t =
     (let dir = (if search_flag then save (config t) @ ''/search''
                 else save (config t) @ ''/eval'');
          t1 = t\<lparr>checkpointer := Some \<lparr>save_dir = dir\<rparr>,
                 periodic_checkpointer :=
                   Some \<lparr>period = 1,
                         max_iter = (if search_flag then search_epochs (config t)
                                     else evaluation_epochs (config t))\<rparr>\<rparr>
      in if truthy resume_from then
           (case resume_or_load env dir resume_from (world t1) of (checkpoint, w) \<Rightarrow>
              (let t2 = emit (ResumeOrLoad dir resume_from) (t1\<lparr>world := w\<rparr>)
               in if has_checkpoint env dir (world t2)
                  then ((case checkpoint ''iteration'' of None \<Rightarrow> - 1 | Some i \<Rightarrow> i) + 1, t2)
                  else (0, t2)))
         else (0, t1))"

text \<open>
  A call \<open>self.<meter>.update(val, n)\<close> on one of the trainer's meters: \<open>get\<close> reads
  the attribute and \<open>put\<close> stores the updated meter; a raise leaves the trainer as it is.
\<close>

definition meter_update ::
  "(('w, 'x, 'y) trainer \<Rightarrow> AverageMeter)
     \<Rightarrow> (AverageMeter \<Rightarrow> ('w, 'x, 'y) trainer \<Rightarrow> ('w, 'x, 'y) trainer)
     \<Rightarrow> real \<Rightarrow> nat \<Rightarrow> ('w, 'x, 'y) trainer \<Rightarrow> ('w, 'x, 'y) trainer result" where
  "meter_update get put val n t =
     (case update val n (get t) of Inl e \<Rightarrow> Inl (e, t) | Inr m \<Rightarrow> Inr (put m t))"

text \<open>\<open>_store_accuracies\<close>.\<close>

definition store_accuracies ::
  "('w, 'x, 'y, 'l) env \<Rightarrow> 'l \<Rightarrow> 'y \<Rightarrow> string \<Rightarrow> ('w, 'x, 'y) trainer
     \<Rightarrow> ('w, 'x, 'y) trainer result" where
  "store_accuracies env logits target split t =
     (case accuracy env logits target of (prec1, prec5) \<Rightarrow>
        (let n = size0 env logits
         in if split = ''train'' then
              then_do (meter_update train_top1 (\<lambda>m s. s\<lparr>train_top1 := m\<rparr>) prec1 n t)
                (meter_update train_top5 (\<lambda>m s. s\<lparr>train_top5 := m\<rparr>) prec5 n)
            else if split = ''val'' then
              then_do (meter_update val_top1 (\<lambda>m s. s\<lparr>val_top1 := m\<rparr>) prec1 n t)
                (meter_update val_top5 (\<lambda>m s. s\<lparr>val_top5 := m\<rparr>) prec5 n)
            else Inl (ValueError, t)))"

text \<open>\<open>_log_and_reset_accuracies\<close>; the log line is not part of the state.\<close>

definition log_and_reset_accuracies ::
  "int \<Rightarrow> ('w, 'x, 'y) trainer \<Rightarrow> ('w, 'x, 'y) trainer" where
  "log_and_reset_accuracies epoch t =
     t\<lparr>train_top1 := reset, train_top5 := reset, train_loss_meter := reset,
       val_top1 := reset, val_top5 := reset, val_loss_meter := reset\<rparr>"

text \<open>\<open>log_to_json\<close>.\<close>

definition errors_path :: "config \<Rightarrow> string" where
  "errors_path cfg = path_join (save cfg) (''errors_'' @ str_int (seed cfg) @ ''.json'')"

definition log_to_json :: "('w, 'x, 'y) trainer \<Rightarrow> ('w, 'x, 'y) trainer" where
  "log_to_json t =
     (let f = fs t;
          f1 = (if save (config t) \<notin> dirs f
                then f\<lparr>dirs := insert (save (config t)) (dirs f)\<rparr> else f);
          f2 = f1\<lparr>files := (files f1)(errors_path (config t) \<mapsto> errors t)\<rparr>
      in emit LogToJson (t\<lparr>fs := f2\<rparr>))"


section \<open>The search loop\<close>

text \<open>A \<open>for\<close> loop whose body may raise: the first exception ends the loop.\<close>

fun for_each :: "('a \<Rightarrow> 's \<Rightarrow> 's result) \<Rightarrow> 'a list \<Rightarrow> 's \<Rightarrow> 's result" where
  "for_each body [] s = Inr s"
| "for_each body (x # xs) s =
     (case body x s of Inl err \<Rightarrow> Inl err | Inr s1 \<Rightarrow> for_each body xs s1)"

text \<open>
  The body of the inner loop of \<open>search\<close> over \<open>zip(train_queue, valid_queue)\<close>: one
  optimizer step, the accuracies of both splits, the log line (which reads the scheduler)
  and the two loss meters.
\<close>

definition get_scheduler :: "('w, 'x, 'y) trainer \<Rightarrow> ('w, 'x, 'y) trainer result" where
  "get_scheduler t = (case scheduler t of None \<Rightarrow> Inl (AttributeError, t) | Some sch \<Rightarrow> Inr t)"

definition search_step ::
  "('w, 'x, 'y, 'l) env \<Rightarrow> ('x \<times> 'y) \<times> ('x \<times> 'y) \<Rightarrow> ('w, 'x, 'y) trainer
     \<Rightarrow> ('w, 'x, 'y) trainer result" where
  "search_step env pair t =
     (case pair of (data_train, data_val) \<Rightarrow>
      (case step env data_train data_val (world t) of
         ((logits_train, logits_val, tr_loss, va_loss), w) \<Rightarrow>
           then_do (store_accuracies env logits_train (snd data_train) ''train''
                      (emit Step (t\<lparr>world := w\<rparr>)))
          (\<lambda>t1. then_do (store_accuracies env logits_val (snd data_val) ''val'' t1)
          (\<lambda>t2. then_do (get_scheduler t2)
          (\<lambda>t3. then_do (meter_update train_loss_meter (\<lambda>m s. s\<lparr>train_loss_meter := m\<rparr>)
                            tr_loss 1 t3)
                   (meter_update val_loss_meter (\<lambda>m s. s\<lparr>val_loss_meter := m\<rparr>)
                      va_loss 1))))))"

text \<open>
  Recording the anytime results: a falsy result records nothing; a truthy one is indexed
  at 0 and at 1, and a sequence of length one raises at the second index, after the first
  append.
\<close>

definition record_anytime :: "real list \<Rightarrow> ('w, 'x, 'y) trainer \<Rightarrow> ('w, 'x, 'y) trainer result" where
  "record_anytime anytime_results t =
     (case anytime_results of
        [] \<Rightarrow> Inr t
      | [a] \<Rightarrow> Inl (IndexError, t\<lparr>errors := (errors t)\<lparr>test_acc := test_acc (errors t) @ [a]\<rparr>\<rparr>)
      | a # b # rest \<Rightarrow>
          Inr (t\<lparr>errors := (errors t)\<lparr>test_acc := test_acc (errors t) @ [a],
                                     test_loss := test_loss (errors t) @ [b]\<rparr>\<rparr>))"

text \<open>The end of every epoch: anytime results, the JSON log, the reset of the meters.\<close>

definition epoch_end ::
  "('w, 'x, 'y, 'l) env \<Rightarrow> int \<Rightarrow> ('w, 'x, 'y) trainer \<Rightarrow> ('w, 'x, 'y) trainer result" where
  "epoch_end env e t =
     then_do (record_anytime (test_statistics env (world t)) (emit TestStatistics t))
       (\<lambda>t1. Inr (log_and_reset_accuracies e (log_to_json t1)))"

definition append_epoch ::
  "real \<Rightarrow> real \<Rightarrow> real \<Rightarrow> real \<Rightarrow> real \<Rightarrow> errors_dict \<Rightarrow> errors_dict" where
  "append_epoch tr_acc tr_loss va_acc va_loss rt d =
     d\<lparr>train_acc := train_acc d @ [tr_acc], train_loss := train_loss d @ [tr_loss],
       valid_acc := valid_acc d @ [va_acc], valid_loss := valid_loss d @ [va_loss],
       runtime := runtime d @ [rt]\<rparr>"

text \<open>The body of the epoch loop of \<open>search\<close>.\<close>

definition checkpoint_step ::
  "('w, 'x, 'y, 'l) env \<Rightarrow> int \<Rightarrow> ('w, 'x, 'y) trainer \<Rightarrow> ('w, 'x, 'y) trainer result" where
  "checkpoint_step env e t =
     (case (checkpointer t, periodic_checkpointer t) of
        (Some c, Some pc) \<Rightarrow>
          Inr (emit (PeriodicCheckpointerStep (period pc) (max_iter pc) e)
                 (t\<lparr>world := periodic_step env (save_dir c) pc e (world t)\<rparr>))
      | _ \<Rightarrow> Inl (AttributeError, t))"

definition search_epoch ::
  "('w, 'x, 'y, 'l) env \<Rightarrow> int \<Rightarrow> ('w, 'x, 'y) trainer \<Rightarrow> ('w, 'x, 'y) trainer result" where
  "search_epoch env e t =
     (let t0 = emit (NewEpoch e) (t\<lparr>world := new_epoch env e (world t)\<rparr>);
          start_time = time env (clock t0);
          t1 = t0\<lparr>clock := clock t0 + 1\<rparr>
      in if using_step_function env then
           then_do (for_each (search_step env) (zip (train_queue t1) (valid_queue t1)) t1)
          (\<lambda>t2. then_do (get_scheduler t2)
          (\<lambda>t3. then_do (checkpoint_step env e
                           (emit SchedulerStep (t3\<lparr>world := scheduler_step env (world t3)\<rparr>)))
          (\<lambda>t4. let end_time = time env (clock t4);
                     t5 = t4\<lparr>clock := clock t4 + 1\<rparr>
                 in epoch_end env e
                      (t5\<lparr>errors :=
                            append_epoch (avg (train_top1 t5)) (avg (train_loss_meter t5))
                              (avg (val_top1 t5)) (avg (val_loss_meter t5))
                              (end_time - start_time) (errors t5)\<rparr>))))
         else
           (let end_time = time env (clock t1);
                t2 = t1\<lparr>clock := clock t1 + 1\<rparr>
            in case train_statistics env (world t2) of
                 (tr_acc, tr_loss, va_acc, va_loss) \<Rightarrow>
                   epoch_end env e
                     (t2\<lparr>errors := append_epoch tr_acc tr_loss va_acc va_loss
                                     (end_time - start_time) (errors t2),
                         train_top1 := (train_top1 t2)\<lparr>avg := tr_acc\<rparr>,
                         val_top1 := (val_top1 t2)\<lparr>avg := va_acc\<rparr>\<rparr>)))"

text \<open>
  \<open>Trainer.search\<close>. The scheduler is assigned only when the optimizer uses the step
  function; the call of \<open>_setup_checkpointers\<close> reads the attribute in either case.
\<close>

definition search ::
  "('w, 'x, 'y, 'l) env \<Rightarrow> pyval \<Rightarrow> ('w, 'x, 'y) trainer \<Rightarrow> ('w, 'x, 'y) trainer result" where
  "search env resume_from t =
     (let t1 = emit BeforeTraining (t\<lparr>world := before_training env (world t)\<rparr>);
          t2 = (if using_step_function env
                then t1\<lparr>scheduler := Some (CosineAnnealingLR (epochs t1))\<rparr> else t1)
      in then_do (get_scheduler t2)
        (\<lambda>t3. case setup_checkpointers env resume_from True t3 of
                 (start_epoch, t4) \<Rightarrow>
                   then_do (for_each (search_epoch env) (py_range start_epoch (epochs t4)) t4)
                     (\<lambda>t5. Inr (emit AfterTraining
                                  (t5\<lparr>world := after_training env (world t5)\<rparr>)))))"


section \<open>Observations on states and traces\<close>

text \<open>The epochs passed to \<open>optimizer.new_epoch\<close>, in call order.\<close>

definition new_epoch_calls :: "event list \<Rightarrow> int list" where
  "new_epoch_calls evs = concat (map (\<lambda>ev. case ev of NewEpoch e \<Rightarrow> [e] | _ \<Rightarrow> []) evs)"

text \<open>
  The calls of \<open>periodic_checkpointer.step\<close>, in call order: the period and the
  \<open>max_iter\<close> of the checkpointer, and the iteration passed.
\<close>

definition checkpoint_calls :: "event list \<Rightarrow> (int \<times> int \<times> int) list" where
  "checkpoint_calls evs =
     concat (map (\<lambda>ev. case ev of PeriodicCheckpointerStep p m e \<Rightarrow> [(p, m, e)] | _ \<Rightarrow> []) evs)"

text \<open>The number of calls of \<open>log_to_json\<close>.\<close>

definition log_calls :: "event list \<Rightarrow> nat" where
  "log_calls evs = length (filter (\<lambda>ev. ev = LogToJson) evs)"

text \<open>The attributes and observations that the inner loop of an epoch leaves alone.\<close>

definition same_attrs :: "('w, 'x, 'y) trainer \<Rightarrow> ('w, 'x, 'y) trainer \<Rightarrow> bool" where
  "same_attrs t t' \<longleftrightarrow>
     errors t' = errors t \<and> scheduler t' = scheduler t \<and> checkpointer t' = checkpointer t
   \<and> periodic_checkpointer t' = periodic_checkpointer t \<and> fs t' = fs t \<and> clock t' = clock t
   \<and> config t' = config t \<and> epochs t' = epochs t \<and> train_queue t' = train_queue t
   \<and> valid_queue t' = valid_queue t \<and> test_queue t' = test_queue t
   \<and> new_epoch_calls (events t') = new_epoch_calls (events t)
   \<and> checkpoint_calls (events t') = checkpoint_calls (events t)
   \<and> log_calls (events t') = log_calls (events t)"

text \<open>
  The per-epoch lists of \<open>errors_dict\<close> after \<open>k\<close> epochs: five lists of length \<open>k\<close>,
  and the two test lists of one common length, at most \<open>k\<close>.
\<close>

definition lists_inv :: "nat \<Rightarrow> errors_dict \<Rightarrow> bool" where
  "lists_inv k d \<longleftrightarrow>
     length (train_acc d) = k \<and> length (train_loss d) = k \<and> length (valid_acc d) = k
   \<and> length (valid_loss d) = k \<and> length (runtime d) = k
   \<and> length (test_acc d) = length (test_loss d) \<and> length (test_acc d) \<le> k"

text \<open>All six meters of the trainer are in the reset state.\<close>

definition all_reset :: "('w, 'x, 'y) trainer \<Rightarrow> bool" where
  "all_reset t \<longleftrightarrow>
     train_top1 t = reset \<and> train_top5 t = reset \<and> train_loss_meter t = reset
   \<and> val_top1 t = reset \<and> val_top5 t = reset \<and> val_loss_meter t = reset"

text \<open>
  What the search loop needs from its surroundings to run through: batches are not empty,
  and the anytime results are falsy or hold an accuracy and a loss.
\<close>

definition well_behaved :: "('w, 'x, 'y, 'l) env \<Rightarrow> bool" where
  "well_behaved env \<longleftrightarrow> (\<forall>l. 0 < size0 env l) \<and> (\<forall>w. length (test_statistics env w) \<noteq> 1)"


text \<open>The attributes that no part of \<open>search\<close> assigns once the loop has started.\<close>

definition same_static :: "('w, 'x, 'y) trainer \<Rightarrow> ('w, 'x, 'y) trainer \<Rightarrow> bool" where
  "same_static t t' \<longleftrightarrow>
     scheduler t' = scheduler t \<and> checkpointer t' = checkpointer t
   \<and> periodic_checkpointer t' = periodic_checkpointer t
   \<and> config t' = config t \<and> epochs t' = epochs t \<and> train_queue t' = train_queue t
   \<and> valid_queue t' = valid_queue t \<and> test_queue t' = test_queue t"

text \<open>
  The attributes that an epoch of the step-function branch reads are assigned.
\<close>

definition ready :: "('w, 'x, 'y, 'l) env \<Rightarrow> ('w, 'x, 'y) trainer \<Rightarrow> bool" where
  "ready env t \<longleftrightarrow>
     (using_step_function env \<longrightarrow>
        scheduler t \<noteq> None \<and> checkpointer t \<noteq> None \<and> periodic_checkpointer t \<noteq> None)"

text \<open>The list \<open>new\<close> is \<open>old\<close> with exactly \<open>k\<close> entries appended.\<close>

definition extended_by :: "nat \<Rightarrow> 'a list \<Rightarrow> 'a list \<Rightarrow> bool" where
  "extended_by k old new \<longleftrightarrow> length new = length old + k \<and> take (length old) new = old"

text \<open>
  The start epoch that \<open>_setup_checkpointers\<close> returns to \<open>search\<close>: the call is made
  after \<open>optimizer.before_training()\<close>.
\<close>

definition start_epoch :: "('w, 'x, 'y, 'l) env \<Rightarrow> pyval \<Rightarrow> ('w, 'x, 'y) trainer \<Rightarrow> int" where
  "start_epoch env resume_from t =
     fst (setup_checkpointers env resume_from True
            (t\<lparr>world := before_training env (world t)\<rparr>))"

text \<open>The state in which the epoch loop of \<open>search\<close> starts.\<close>

definition loop_start ::
  "('w, 'x, 'y, 'l) env \<Rightarrow> pyval \<Rightarrow> ('w, 'x, 'y) trainer \<Rightarrow> ('w, 'x, 'y) trainer" where
  "loop_start env resume_from t =
     (let t1 = emit BeforeTraining (t\<lparr>world := before_training env (world t)\<rparr>);
          t2 = (if using_step_function env
                then t1\<lparr>scheduler := Some (CosineAnnealingLR (epochs t1))\<rparr> else t1)
      in snd (setup_checkpointers env resume_from True t2))"

section \<open>The evaluation\<close>

text \<open>
  The search model that \<open>evaluate\<close> passes on: lines 209 to 210. The assignment ends in
  a comma, so the default is a one-element tuple holding the joined path.
\<close>

definition resolve_search_model :: "config \<Rightarrow> pyval \<Rightarrow> pyval" where
  "resolve_search_model cfg search_model =
     (if \<not> truthy search_model
      then PTuple [PStr (path_join (path_join (save cfg) ''search'') ''model_final.pth'')]
      else search_model)"

text \<open>One batch of the retraining loop.\<close>

definition retrain_step ::
  "('w, 'x, 'y, 'l) env \<Rightarrow> bool \<Rightarrow> 'x \<times> 'y \<Rightarrow> ('w, 'x, 'y) trainer
     \<Rightarrow> ('w, 'x, 'y) trainer result" where
  "retrain_step env clip batch t =
     (case train_batch env clip batch (world t) of
        (logits_train, w) \<Rightarrow>
          store_accuracies env logits_train (snd batch) ''train''
            (emit (TrainBatch clip) (t\<lparr>world := w\<rparr>)))"

text \<open>One epoch of the retraining loop; the scheduler is a local variable here.\<close>

definition retrain_epoch ::
  "('w, 'x, 'y, 'l) env \<Rightarrow> bool \<Rightarrow> int \<Rightarrow> ('w, 'x, 'y) trainer
     \<Rightarrow> ('w, 'x, 'y) trainer result" where
  "retrain_epoch env clip e t =
     then_do (for_each (retrain_step env clip) (train_queue t) t)
    (\<lambda>t1. then_do (checkpoint_step env e
                     (emit SchedulerStep (t1\<lparr>world := scheduler_step env (world t1)\<rparr>)))
    (\<lambda>t2. Inr (t2\<lparr>train_top1 := reset, train_top5 := reset\<rparr>)))"

text \<open>The branch \<open>if retrain\<close>: lines 225 to 279.\<close>

definition retrain ::
  "('w, 'x, 'y, 'l) env \<Rightarrow> pyval \<Rightarrow> ('w, 'x, 'y) trainer \<Rightarrow> ('w, 'x, 'y) trainer result" where
  "retrain env resume_from t =
     (let t1 = emit ResetWeights (t\<lparr>world := reset_weights env (world t)\<rparr>)
      in case setup_checkpointers env resume_from False t1 of
           (first_epoch, t2) \<Rightarrow>
             (let t3 = emit ArchTrain (t2\<lparr>world := set_training env True (world t2)\<rparr>);
                  t4 = t3\<lparr>train_top1 := reset, train_top5 := reset\<rparr>
              in for_each (retrain_epoch env (grad_clip (config t4) \<noteq> 0))
                   (py_range first_epoch (evaluation_epochs (config t4))) t4))"

text \<open>
  One batch of the final test: the forward pass runs under \<open>torch.no_grad()\<close>, and the
  two local meters are updated with the batch size of the input.
\<close>

definition test_step ::
  "('w, 'x, 'y, 'l) env \<Rightarrow> 'x \<times> 'y
     \<Rightarrow> ('w, 'x, 'y) trainer \<times> AverageMeter \<times> AverageMeter
     \<Rightarrow> (('w, 'x, 'y) trainer \<times> AverageMeter \<times> AverageMeter) result" where
  "test_step env data_test s =
     (case s of (t, top1, top5) \<Rightarrow>
      (case data_test of (input_test, target_test) \<Rightarrow>
        (let n = input_size env input_test;
             logits = forward env input_test (world t);
             t1 = emit (Forward False) t
         in case accuracy env logits target_test of
              (prec1, prec5) \<Rightarrow>
                (case update prec1 n top1 of
                   Inl e \<Rightarrow> Inl (e, (t1, top1, top5))
                 | Inr m1 \<Rightarrow>
                     (case update prec5 n top5 of
                        Inl e \<Rightarrow> Inl (e, (t1, m1, top5))
                      | Inr m5 \<Rightarrow> Inr (t1, m1, m5))))))"

text \<open>Measuring the final test accuracy: lines 281 to 303.\<close>

definition measure_test ::
  "('w, 'x, 'y, 'l) env \<Rightarrow> ('w, 'x, 'y) trainer
     \<Rightarrow> (('w, 'x, 'y) trainer \<times> AverageMeter \<times> AverageMeter) result" where
  "measure_test env t =
     for_each (test_step env) (test_queue t)
       (emit ArchEval (t\<lparr>world := set_training env False (world t)\<rparr>), reset, reset)"

text \<open>
  \<open>Trainer.evaluate\<close>. It returns nothing; the model returns the trainer and, when the
  test was run, the two meters whose averages the last log line prints.
\<close>

definition evaluate ::
  "('w, 'x, 'y, 'l) env \<Rightarrow> bool \<Rightarrow> pyval \<Rightarrow> pyval \<Rightarrow> ('w, 'x, 'y) trainer
     \<Rightarrow> error \<times> ('w, 'x, 'y) trainer
         + ('w, 'x, 'y) trainer \<times> (AverageMeter \<times> AverageMeter) option" where
  "evaluate env retrain_flag search_model resume_from t =
     (let t1 = prepare_dataloaders env Evaluation t;
          t2 = snd (setup_checkpointers env
                      (resolve_search_model (config t1) search_model) True t1);
          t3 = emit GetFinalArchitecture t2
      in if queryable env (world t3)
         then Inr (emit Query (t3\<lparr>world := query env (world t3)\<rparr>), None)
         else
           (case (if retrain_flag then retrain env resume_from (emit ArchTo t3)
                  else Inr (emit ArchTo t3)) of
              Inl err \<Rightarrow> Inl err
            | Inr t4 \<Rightarrow>
                (case measure_test env t4 of
                   Inl (e, s) \<Rightarrow> Inl (e, fst s)
                 | Inr (t5, top1, top5) \<Rightarrow> Inr (t5, Some (top1, top5)))))"

text \<open>
  The meter that has seen exactly the weighted samples \<open>xs\<close> since its reset, and the
  batch-size-weighted average of such samples.
\<close>

definition weighted_sum :: "(real \<times> nat) list \<Rightarrow> real" where
  "weighted_sum xs = sum_list (map (\<lambda>(v, n). v * real n) xs)"

definition total_count :: "(real \<times> nat) list \<Rightarrow> nat" where
  "total_count xs = sum_list (map snd xs)"

definition weighted_avg :: "(real \<times> nat) list \<Rightarrow> real" where
  "weighted_avg xs = (if xs = [] then 0 else weighted_sum xs / real (total_count xs))"

definition meter_of :: "(real \<times> nat) list \<Rightarrow> AverageMeter" where
  "meter_of xs = \<lparr>avg = weighted_avg xs, sum_val = weighted_sum xs, cnt = total_count xs\<rparr>"

text \<open>
  What the optimizer returns in the steps of one epoch, with the targets of the two
  batches: the world is threaded through the steps as the inner loop does.
\<close>

fun step_results ::
  "('w, 'x, 'y, 'l) env \<Rightarrow> (('x \<times> 'y) \<times> ('x \<times> 'y)) list \<Rightarrow> 'w
     \<Rightarrow> (('l \<times> 'y) \<times> ('l \<times> 'y) \<times> real \<times> real) list" where
  "step_results env [] w = []"
| "step_results env (pair # pairs) w =
     (case step env (fst pair) (snd pair) w of
        ((logits_train, logits_val, tr_loss, va_loss), w1) \<Rightarrow>
          ((logits_train, snd (fst pair)), (logits_val, snd (snd pair)), tr_loss, va_loss)
            # step_results env pairs w1)"

text \<open>The top-1 sample of a batch: its accuracy, weighted by the number of logits.\<close>

definition top1_sample :: "('w, 'x, 'y, 'l) env \<Rightarrow> 'l \<times> 'y \<Rightarrow> real \<times> nat" where
  "top1_sample env ly = (fst (accuracy env (fst ly) (snd ly)), size0 env (fst ly))"

text \<open>
  The samples that the four recorded meters receive from the step results of an epoch:
  the losses are updated with weight 1.
\<close>

definition train_top1_samples ::
  "('w, 'x, 'y, 'l) env \<Rightarrow> (('l \<times> 'y) \<times> ('l \<times> 'y) \<times> real \<times> real) list
     \<Rightarrow> (real \<times> nat) list" where
  "train_top1_samples env rs = map (\<lambda>r. top1_sample env (fst r)) rs"

definition val_top1_samples ::
  "('w, 'x, 'y, 'l) env \<Rightarrow> (('l \<times> 'y) \<times> ('l \<times> 'y) \<times> real \<times> real) list
     \<Rightarrow> (real \<times> nat) list" where
  "val_top1_samples env rs = map (\<lambda>r. top1_sample env (fst (snd r))) rs"

definition train_loss_samples ::
  "(('l \<times> 'y) \<times> ('l \<times> 'y) \<times> real \<times> real) list \<Rightarrow> (real \<times> nat) list" where
  "train_loss_samples rs = map (\<lambda>r. (fst (snd (snd r)), 1)) rs"

definition val_loss_samples ::
  "(('l \<times> 'y) \<times> ('l \<times> 'y) \<times> real \<times> real) list \<Rightarrow> (real \<times> nat) list" where
  "val_loss_samples rs = map (\<lambda>r. (snd (snd (snd r)), 1)) rs"

text \<open>The step results of epoch \<open>e\<close>, started in the trainer \<open>t\<close>.\<close>

definition epoch_results ::
  "('w, 'x, 'y, 'l) env \<Rightarrow> int \<Rightarrow> ('w, 'x, 'y) trainer
     \<Rightarrow> (('l \<times> 'y) \<times> ('l \<times> 'y) \<times> real \<times> real) list" where
  "epoch_results env e t =
     step_results env (zip (train_queue t) (valid_queue t)) (new_epoch env e (world t))"

text \<open>
  The top-1 sample of a test batch in the world \<open>w\<close>: the accuracy of the forward pass,
  weighted by the batch size of the input.
\<close>

definition test_top1_sample :: "('w, 'x, 'y, 'l) env \<Rightarrow> 'w \<Rightarrow> 'x \<times> 'y \<Rightarrow> real \<times> nat" where
  "test_top1_sample env w b =
     (fst (accuracy env (forward env (fst b) w) (snd b)), input_size env (fst b))"

text \<open>
  The world after the steps of the inner loop, and the world in which
  \<open>optimizer.test_statistics()\<close> is called in epoch \<open>e\<close> started in the trainer \<open>t\<close>:
  after \<open>new_epoch\<close> and, in the step-function branch, after the steps, the scheduler
  step and the checkpoint step.
\<close>

fun world_after_steps ::
  "('w, 'x, 'y, 'l) env \<Rightarrow> (('x \<times> 'y) \<times> ('x \<times> 'y)) list \<Rightarrow> 'w \<Rightarrow> 'w" where
  "world_after_steps env [] w = w"
| "world_after_steps env (pair # pairs) w =
     world_after_steps env pairs (snd (step env (fst pair) (snd pair) w))"

definition anytime_world :: "('w, 'x, 'y, 'l) env \<Rightarrow> int \<Rightarrow> ('w, 'x, 'y) trainer \<Rightarrow> 'w" where
  "anytime_world env e t =
     (let w0 = new_epoch env e (world t)
      in if using_step_function env then
           (let w1 = scheduler_step env
                       (world_after_steps env (zip (train_queue t) (valid_queue t)) w0)
            in case (checkpointer t, periodic_checkpointer t) of
                 (Some c, Some pc) \<Rightarrow> periodic_step env (save_dir c) pc e w1
               | _ \<Rightarrow> w1)
         else w0)"

text \<open>The events of the retraining epochs and the load events of the checkpoint setup.\<close>

definition retrain_events :: "bool \<Rightarrow> nat \<Rightarrow> int \<Rightarrow> int list \<Rightarrow> event list" where
  "retrain_events clip batches m es =
     concat (map (\<lambda>e. replicate batches (TrainBatch clip)
                        @ [SchedulerStep, PeriodicCheckpointerStep 1 m e]) es)"

definition load_events :: "string \<Rightarrow> pyval \<Rightarrow> event list" where
  "load_events dir resume_from = (if truthy resume_from then [ResumeOrLoad dir resume_from] else [])"

section \<open>The comparison plots\<close>

text \<open>
  A run is a dictionary loaded from JSON. An entry of \<open>arch_eval\<close> maps a dataset to a
  dictionary from metrics to numbers.
\<close>

type_synonym arch_eval = "string \<rightharpoonup> (string \<rightharpoonup> real)"

datatype run_value = Evals "arch_eval list" | Numbers "real list" | Number real

type_synonym run = "string \<rightharpoonup> run_value"










section \<open>A small concrete run\<close>

text \<open>
  An environment to run the definitions on: the world counts the calls made to it,
  batches are pairs of numbers, every batch has four samples, and anytime results are
  reported in every other state of the world.
\<close>

definition env0 :: "(nat, nat, nat, nat) env" where
  "env0 =
     \<lparr>using_step_function = True,
      get_model_size = (\<lambda>w. 1),
      before_training = (\<lambda>w. w),
      new_epoch = (\<lambda>e w. Suc w),
      step = (\<lambda>dt dv w. ((fst dt, fst dv, 1 / 2, 1 / 4), Suc w)),
      train_statistics = (\<lambda>w. (90, 1 / 2, 80, 3 / 4)),
      test_statistics = (\<lambda>w. if even w then [85, 1] else []),
      after_training = (\<lambda>w. w),
      scheduler_step = (\<lambda>w. w),
      resume_or_load = (\<lambda>dir p w. ([''iteration'' \<mapsto> 0], w)),
      has_checkpoint = (\<lambda>dir w. True),
      periodic_step = (\<lambda>dir pc e w. w),
      accuracy = (\<lambda>l y. (real l, 100)),
      size0 = (\<lambda>l. 4),
      get_train_val_loaders = (\<lambda>sec. ([(50, 1), (70, 2)], [(60, 1), (80, 2)], [(90, 3)])),
      time = (\<lambda>k. real k),
      queryable = (\<lambda>w. False),
      query = (\<lambda>w. w),
      reset_weights = (\<lambda>w. w),
      set_training = (\<lambda>b w. w),
      train_batch = (\<lambda>clip b w. (fst b, Suc w)),
      forward = (\<lambda>x w. x),
      input_size = (\<lambda>x. 4)\<rparr>"

definition cfg0 :: config where
  "cfg0 = \<lparr>save = ''run'', seed = 7, search_epochs = 2, evaluation_epochs = 1, grad_clip = 5\<rparr>"

definition fs0 :: filesystem where
  "fs0 = \<lparr>dirs = {}, files = Map.empty\<rparr>"

definition trainer0 :: "(nat, nat, nat) trainer" where
  "trainer0 = init env0 cfg0 0 fs0"

text \<open>The same optimizer, but one that does not use the step function.\<close>

definition env1 :: "(nat, nat, nat, nat) env" where
  "env1 = env0\<lparr>using_step_function := False\<rparr>"

definition trainer1 :: "(nat, nat, nat) trainer" where
  "trainer1 = init env1 cfg0 0 fs0"




section \<open>Properties of the search loop\<close>

subsection \<open>Sequencing and loops\<close>

lemma then_do_Inl [simp]: "then_do (Inl x) f = Inl x"
  by (simp add: then_do_def)

lemma then_do_Inr [simp]: "then_do (Inr s) f = f s"
  by (simp add: then_do_def)

lemma then_do_eq_Inr: "then_do r f = Inr s \<longleftrightarrow> (\<exists>s1. r = Inr s1 \<and> f s1 = Inr s)"
  by (cases r) simp_all


lemma for_each_preserves:
  assumes step: "\<And>x s s1. P s \<Longrightarrow> body x s = Inr s1 \<Longrightarrow> P s1"
  shows "P s \<Longrightarrow> for_each body xs s = Inr s' \<Longrightarrow> P s'"
proof (induction xs arbitrary: s)
  case Nil
  then show ?case by simp
next
  case (Cons x xs)
  then show ?case by (auto split: sum.splits dest: step)
qed

lemma for_each_returns:
  assumes step: "\<And>x s. P s \<Longrightarrow> \<exists>s1. body x s = Inr s1 \<and> P s1"
  shows "P s \<Longrightarrow> \<exists>s'. for_each body xs s = Inr s' \<and> P s'"
proof (induction xs arbitrary: s)
  case Nil
  then show ?case by simp
next
  case (Cons x xs)
  from step [OF Cons.prems, of x] obtain s1 where b: "body x s = Inr s1" and p: "P s1"
    by blast
  from Cons.IH [OF p] b show ?case by simp
qed

lemma meter_update_Inr:
  "meter_update get put v n t = Inr t' \<longleftrightarrow> (\<exists>m. update v n (get t) = Inr m \<and> t' = put m t)"
  by (auto simp: meter_update_def split: sum.splits)

lemma update_Inr:
  "update v n m = Inr m' \<longleftrightarrow>
     cnt m + n \<noteq> 0 \<and> m' = \<lparr>avg = (sum_val m + v * real n) / real (cnt m + n),
                               sum_val = sum_val m + v * real n, cnt = cnt m + n\<rparr>"
  by (auto simp: update_def Let_def)

lemma get_scheduler_Inr: "get_scheduler t = Inr t' \<longleftrightarrow> scheduler t \<noteq> None \<and> t' = t"
  by (auto simp: get_scheduler_def split: option.splits)

lemma new_epoch_calls_append [simp]:
  "new_epoch_calls (xs @ ys) = new_epoch_calls xs @ new_epoch_calls ys"
  by (simp add: new_epoch_calls_def)

lemma checkpoint_calls_append [simp]:
  "checkpoint_calls (xs @ ys) = checkpoint_calls xs @ checkpoint_calls ys"
  by (simp add: checkpoint_calls_def)

lemma log_calls_append [simp]: "log_calls (xs @ ys) = log_calls xs + log_calls ys"
  by (simp add: log_calls_def)

lemma observe_Nil [simp]:
  "new_epoch_calls [] = []" "checkpoint_calls [] = []" "log_calls [] = 0"
  by (simp_all add: new_epoch_calls_def checkpoint_calls_def log_calls_def)

lemma observe_Cons [simp]:
  "new_epoch_calls (ev # evs) = (case ev of NewEpoch e \<Rightarrow> [e] | _ \<Rightarrow> []) @ new_epoch_calls evs"
  "checkpoint_calls (ev # evs) =
     (case ev of PeriodicCheckpointerStep p m e \<Rightarrow> [(p, m, e)] | _ \<Rightarrow> []) @ checkpoint_calls evs"
  "log_calls (ev # evs) = (if ev = LogToJson then 1 else 0) + log_calls evs"
  by (simp_all add: new_epoch_calls_def checkpoint_calls_def log_calls_def)

lemma store_accuracies_frame:
  assumes "store_accuracies env lg tg sp t = Inr t'"
  shows "same_attrs t t' \<and> events t' = events t \<and> world t' = world t
       \<and> train_loss_meter t' = train_loss_meter t \<and> val_loss_meter t' = val_loss_meter t"
  using assms
  by (auto simp: store_accuracies_def same_attrs_def Let_def then_do_eq_Inr meter_update_Inr
           split: prod.splits if_splits)

lemma update_pos: "0 < n \<Longrightarrow> \<exists>m'. update v n m = Inr m'"
  by (simp add: update_def Let_def)

lemma meter_update_pos: "0 < n \<Longrightarrow> \<exists>t'. meter_update get put v n t = Inr t'"
  using update_pos [of n v "get t"] by (auto simp: meter_update_def)

lemma meter_update_one: "\<exists>t'. meter_update get put v 1 t = Inr t'"
  using meter_update_pos [of 1 get put v t] by simp

lemma store_accuracies_returns:
  assumes "0 < size0 env lg" "sp = ''train'' \<or> sp = ''val''"
  shows "\<exists>t'. store_accuracies env lg tg sp t = Inr t'"
proof -
  obtain p1 p5 where acc: "accuracy env lg tg = (p1, p5)" by (cases "accuracy env lg tg")
  from assms(2) show ?thesis
  proof
    assume sp: "sp = ''train''"
    from meter_update_pos [OF assms(1)] obtain t1 where
      t1: "meter_update train_top1 (\<lambda>m s. s\<lparr>train_top1 := m\<rparr>) p1 (size0 env lg) t = Inr t1"
      by blast
    from meter_update_pos [OF assms(1)] obtain t2 where
      t2: "meter_update train_top5 (\<lambda>m s. s\<lparr>train_top5 := m\<rparr>) p5 (size0 env lg) t1 = Inr t2"
      by blast
    show ?thesis by (simp add: store_accuracies_def acc sp t1 t2)
  next
    assume sp: "sp = ''val''"
    from meter_update_pos [OF assms(1)] obtain t1 where
      t1: "meter_update val_top1 (\<lambda>m s. s\<lparr>val_top1 := m\<rparr>) p1 (size0 env lg) t = Inr t1"
      by blast
    from meter_update_pos [OF assms(1)] obtain t2 where
      t2: "meter_update val_top5 (\<lambda>m s. s\<lparr>val_top5 := m\<rparr>) p5 (size0 env lg) t1 = Inr t2"
      by blast
    show ?thesis by (simp add: store_accuracies_def acc sp t1 t2)
  qed
qed

lemma search_step_frame:
  assumes "search_step env pair t = Inr t'"
  shows "same_attrs t t'"
  using assms
  by (auto simp: search_step_def emit_def then_do_eq_Inr meter_update_Inr get_scheduler_Inr same_attrs_def
           split: prod.splits dest!: store_accuracies_frame)

lemma search_step_returns:
  assumes "\<forall>l. 0 < size0 env l" "scheduler t \<noteq> None"
  shows "\<exists>t'. search_step env pair t = Inr t'"
proof -
  obtain dt dv where pair: "pair = (dt, dv)" by (cases pair)
  obtain lt lv tl vl w where st: "step env dt dv (world t) = ((lt, lv, tl, vl), w)"
    by (cases "step env dt dv (world t)") auto
  from assms(1) have pos: "0 < size0 env lt" "0 < size0 env lv" by simp_all
  from store_accuracies_returns [OF pos(1)] obtain t1 where
    t1: "store_accuracies env lt (snd dt) ''train'' (emit Step (t\<lparr>world := w\<rparr>)) = Inr t1"
    by blast
  from store_accuracies_returns [OF pos(2)] obtain t2 where
    t2: "store_accuracies env lv (snd dv) ''val'' t1 = Inr t2"
    by blast
  from store_accuracies_frame [OF t1] store_accuracies_frame [OF t2] assms(2)
  have "scheduler t2 \<noteq> None" by (simp add: same_attrs_def emit_def)
  then have g: "get_scheduler t2 = Inr t2" by (simp add: get_scheduler_Inr)
  from meter_update_one obtain t3 where
    t3: "meter_update train_loss_meter (\<lambda>m s. s\<lparr>train_loss_meter := m\<rparr>) tl 1 t2 = Inr t3"
    by blast
  from meter_update_one obtain t4 where
    t4: "meter_update val_loss_meter (\<lambda>m s. s\<lparr>val_loss_meter := m\<rparr>) vl 1 t3 = Inr t4"
    by blast
  show ?thesis using t3 t4 by (simp add: search_step_def pair st t1 t2 g)
qed


lemma search_steps_frame:
  assumes "for_each (search_step env) pairs t = Inr t'"
  shows "same_attrs t t'"
proof -
  have "same_attrs t t \<Longrightarrow> for_each (search_step env) pairs t = Inr t' \<Longrightarrow> same_attrs t t'"
    by (rule for_each_preserves [where P = "same_attrs t"])
       (auto dest!: search_step_frame simp: same_attrs_def)
  with assms show ?thesis by (simp add: same_attrs_def)
qed

lemma search_steps_returns:
  assumes "\<forall>l. 0 < size0 env l" "scheduler t \<noteq> None"
  shows "\<exists>t'. for_each (search_step env) pairs t = Inr t'"
proof -
  have "\<exists>t'. for_each (search_step env) pairs t = Inr t' \<and> scheduler t' \<noteq> None"
  proof (rule for_each_returns [where P = "\<lambda>s. scheduler s \<noteq> None"], goal_cases)
    case (1 x s)
    from search_step_returns [OF assms(1) 1] obtain s1 where s1: "search_step env x s = Inr s1"
      by blast
    with search_step_frame [OF s1] 1 show ?case
      by (simp add: same_attrs_def)
  qed (rule assms(2))
  then show ?thesis by blast
qed


lemma record_anytime_Inr:
  "record_anytime rs t = Inr t' \<longleftrightarrow>
     (rs = [] \<and> t' = t) \<or>
     (\<exists>a b rest. rs = a # b # rest \<and>
        t' = t\<lparr>errors := (errors t)\<lparr>test_acc := test_acc (errors t) @ [a],
                                   test_loss := test_loss (errors t) @ [b]\<rparr>\<rparr>)"
  by (auto simp: record_anytime_def split: list.splits)

lemma checkpoint_step_Inr:
  "checkpoint_step env e t = Inr t' \<longleftrightarrow>
     (\<exists>c pc. checkpointer t = Some c \<and> periodic_checkpointer t = Some pc \<and>
        t' = emit (PeriodicCheckpointerStep (period pc) (max_iter pc) e)
               (t\<lparr>world := periodic_step env (save_dir c) pc e (world t)\<rparr>))"
  by (auto simp: checkpoint_step_def split: option.splits)

lemma epoch_end_effect:
  assumes "epoch_end env e t = Inr t'"
  shows "same_static t t'"
    and "all_reset t'"
    and "train_acc (errors t') = train_acc (errors t)"
    and "train_loss (errors t') = train_loss (errors t)"
    and "valid_acc (errors t') = valid_acc (errors t)"
    and "valid_loss (errors t') = valid_loss (errors t)"
    and "runtime (errors t') = runtime (errors t)"
    and "params (errors t') = params (errors t)"
    and "(test_statistics env (world t) = [] \<and> test_acc (errors t') = test_acc (errors t)
            \<and> test_loss (errors t') = test_loss (errors t))
         \<or> (\<exists>a b rest. test_statistics env (world t) = a # b # rest
               \<and> test_acc (errors t') = test_acc (errors t) @ [a]
               \<and> test_loss (errors t') = test_loss (errors t) @ [b])"
    and "files (fs t') (errors_path (config t)) = Some (errors t')"
    and "save (config t) \<in> dirs (fs t')"
    and "new_epoch_calls (events t') = new_epoch_calls (events t)"
    and "checkpoint_calls (events t') = checkpoint_calls (events t)"
    and "log_calls (events t') = Suc (log_calls (events t))"
    and "clock t' = clock t"
  using assms
  by (auto simp: epoch_end_def then_do_eq_Inr record_anytime_Inr emit_def log_to_json_def
        log_and_reset_accuracies_def same_static_def all_reset_def Let_def)


lemma checkpoint_step_effect:
  assumes "checkpoint_step env e t = Inr t'"
  shows "\<exists>pc. periodic_checkpointer t = Some pc \<and>
           checkpoint_calls (events t') = checkpoint_calls (events t) @ [(period pc, max_iter pc, e)]"
    and "errors t' = errors t" and "same_static t t'" and "fs t' = fs t" and "clock t' = clock t"
    and "new_epoch_calls (events t') = new_epoch_calls (events t)"
    and "log_calls (events t') = log_calls (events t)"
    and "train_top1 t' = train_top1 t" and "train_top5 t' = train_top5 t"
    and "train_loss_meter t' = train_loss_meter t" and "val_top1 t' = val_top1 t"
    and "val_top5 t' = val_top5 t" and "val_loss_meter t' = val_loss_meter t"
  using assms by (auto simp: checkpoint_step_Inr emit_def same_static_def)

lemma search_epoch_pre_end:
  assumes "search_epoch env e t = Inr t'"
  shows "\<exists>tp a1 a2 a3 a4 a5.
           epoch_end env e tp = Inr t' \<and> errors tp = append_epoch a1 a2 a3 a4 a5 (errors t)
         \<and> same_static t tp \<and> fs tp = fs t \<and> clock tp = clock t + 2
         \<and> new_epoch_calls (events tp) = new_epoch_calls (events t) @ [e]
         \<and> log_calls (events tp) = log_calls (events t)
         \<and> checkpoint_calls (events tp) = checkpoint_calls (events t) @
              (if using_step_function env
               then (case periodic_checkpointer t of None \<Rightarrow> []
                     | Some pc \<Rightarrow> [(period pc, max_iter pc, e)])
               else [])"
proof (cases "using_step_function env")
  case False
  obtain x1 x2 x3 x4 where st: "train_statistics env (new_epoch env e (world t)) = (x1, x2, x3, x4)"
    by (cases "train_statistics env (new_epoch env e (world t))") auto
  define tp where "tp = t\<lparr>world := new_epoch env e (world t),
               events := events t @ [NewEpoch e],
               clock := Suc (Suc (clock t)),
               errors := append_epoch x1 x2 x3 x4
                  (time env (Suc (clock t)) - time env (clock t)) (errors t),
               train_top1 := (train_top1 t)\<lparr>avg := x1\<rparr>,
               val_top1 := (val_top1 t)\<lparr>avg := x3\<rparr>\<rparr>"
  from assms False st have "epoch_end env e tp = Inr t'"
    by (simp add: search_epoch_def Let_def emit_def tp_def)
  moreover have "errors tp = append_epoch x1 x2 x3 x4
                  (time env (Suc (clock t)) - time env (clock t)) (errors t)"
    by (simp add: tp_def)
  moreover have "same_static t tp" "fs tp = fs t" "clock tp = clock t + 2"
    "new_epoch_calls (events tp) = new_epoch_calls (events t) @ [e]"
    "log_calls (events tp) = log_calls (events t)"
    "checkpoint_calls (events tp) = checkpoint_calls (events t)"
    by (simp_all add: tp_def same_static_def)
  ultimately show ?thesis using False by simp blast
next
  case True
  define t1 where "t1 = (emit (NewEpoch e) (t\<lparr>world := new_epoch env e (world t)\<rparr>))
                           \<lparr>clock := Suc (clock t)\<rparr>"
  from assms True obtain t2 t4 where
    loop: "for_each (search_step env) (zip (train_queue t1) (valid_queue t1)) t1 = Inr t2"
    and sch: "scheduler t2 \<noteq> None"
    and ck: "checkpoint_step env e
               (emit SchedulerStep (t2\<lparr>world := scheduler_step env (world t2)\<rparr>)) = Inr t4"
    and fin: "epoch_end env e
                (t4\<lparr>clock := clock t4 + 1,
                    errors := append_epoch (avg (train_top1 t4)) (avg (train_loss_meter t4))
                                (avg (val_top1 t4)) (avg (val_loss_meter t4))
                                (time env (clock t4) - time env (clock t)) (errors t4)\<rparr>) = Inr t'"
    by (auto simp: search_epoch_def Let_def then_do_eq_Inr get_scheduler_Inr t1_def emit_def)
  from search_steps_frame [OF loop] have fr: "same_attrs t1 t2" .
  let ?t3 = "emit SchedulerStep (t2\<lparr>world := scheduler_step env (world t2)\<rparr>)"
  from checkpoint_step_effect [OF ck] obtain pc where
    pc: "periodic_checkpointer ?t3 = Some pc" and
    cc: "checkpoint_calls (events t4) = checkpoint_calls (events ?t3) @ [(period pc, max_iter pc, e)]"
    and t4: "errors t4 = errors ?t3" "same_static ?t3 t4" "fs t4 = fs ?t3" "clock t4 = clock ?t3"
      "new_epoch_calls (events t4) = new_epoch_calls (events ?t3)"
      "log_calls (events t4) = log_calls (events ?t3)"
    by blast
  show ?thesis
    apply (rule exI [where x = "t4\<lparr>clock := clock t4 + 1,
                    errors := append_epoch (avg (train_top1 t4)) (avg (train_loss_meter t4))
                                (avg (val_top1 t4)) (avg (val_loss_meter t4))
                                (time env (clock t4) - time env (clock t)) (errors t4)\<rparr>"])
    apply (rule exI [where x = "avg (train_top1 t4)"])
    apply (rule exI [where x = "avg (train_loss_meter t4)"])
    apply (rule exI [where x = "avg (val_top1 t4)"])
    apply (rule exI [where x = "avg (val_loss_meter t4)"])
    apply (rule exI [where x = "time env (clock t4) - time env (clock t)"])
    using fin fr pc cc t4 True
    apply (simp add: t1_def emit_def same_attrs_def same_static_def)
    done
qed


lemma append_epoch_sel [simp]:
  "train_acc (append_epoch a1 a2 a3 a4 a5 d) = train_acc d @ [a1]"
  "train_loss (append_epoch a1 a2 a3 a4 a5 d) = train_loss d @ [a2]"
  "valid_acc (append_epoch a1 a2 a3 a4 a5 d) = valid_acc d @ [a3]"
  "valid_loss (append_epoch a1 a2 a3 a4 a5 d) = valid_loss d @ [a4]"
  "runtime (append_epoch a1 a2 a3 a4 a5 d) = runtime d @ [a5]"
  "test_acc (append_epoch a1 a2 a3 a4 a5 d) = test_acc d"
  "test_loss (append_epoch a1 a2 a3 a4 a5 d) = test_loss d"
  "params (append_epoch a1 a2 a3 a4 a5 d) = params d"
  by (simp_all add: append_epoch_def)

lemma same_static_trans: "same_static a b \<Longrightarrow> same_static b c \<Longrightarrow> same_static a c"
  by (simp add: same_static_def)

lemma same_static_refl [simp]: "same_static a a"
  by (simp add: same_static_def)

lemma search_epoch_effect:
  assumes "search_epoch env e t = Inr t'"
  shows "same_static t t'"
    and "all_reset t'"
    and "\<exists>a. train_acc (errors t') = train_acc (errors t) @ [a]"
    and "\<exists>a. train_loss (errors t') = train_loss (errors t) @ [a]"
    and "\<exists>a. valid_acc (errors t') = valid_acc (errors t) @ [a]"
    and "\<exists>a. valid_loss (errors t') = valid_loss (errors t) @ [a]"
    and "\<exists>a. runtime (errors t') = runtime (errors t) @ [a]"
    and "params (errors t') = params (errors t)"
    and "(test_acc (errors t') = test_acc (errors t) \<and> test_loss (errors t') = test_loss (errors t))
         \<or> (\<exists>a b. test_acc (errors t') = test_acc (errors t) @ [a]
               \<and> test_loss (errors t') = test_loss (errors t) @ [b])"
    and "files (fs t') (errors_path (config t)) = Some (errors t')"
    and "save (config t) \<in> dirs (fs t')"
    and "new_epoch_calls (events t') = new_epoch_calls (events t) @ [e]"
    and "log_calls (events t') = Suc (log_calls (events t))"
    and "checkpoint_calls (events t') = checkpoint_calls (events t) @
              (if using_step_function env
               then (case periodic_checkpointer t of None \<Rightarrow> []
                     | Some pc \<Rightarrow> [(period pc, max_iter pc, e)])
               else [])"
    and "clock t' = clock t + 2"
proof -
  from search_epoch_pre_end [OF assms] obtain tp a1 a2 a3 a4 a5 where
    fin: "epoch_end env e tp = Inr t'" and
    er: "errors tp = append_epoch a1 a2 a3 a4 a5 (errors t)" and
    st: "same_static t tp" and f: "fs tp = fs t" and c: "clock tp = clock t + 2" and
    ne: "new_epoch_calls (events tp) = new_epoch_calls (events t) @ [e]" and
    lc: "log_calls (events tp) = log_calls (events t)" and
    cc: "checkpoint_calls (events tp) = checkpoint_calls (events t) @
              (if using_step_function env
               then (case periodic_checkpointer t of None \<Rightarrow> []
                     | Some pc \<Rightarrow> [(period pc, max_iter pc, e)])
               else [])"
    by blast
  note ee = epoch_end_effect [OF fin]
  from st ee(1) show "same_static t t'" by (rule same_static_trans)
  from ee(2) show "all_reset t'" .
  from ee(3) er show "\<exists>a. train_acc (errors t') = train_acc (errors t) @ [a]" by simp
  from ee(4) er show "\<exists>a. train_loss (errors t') = train_loss (errors t) @ [a]" by simp
  from ee(5) er show "\<exists>a. valid_acc (errors t') = valid_acc (errors t) @ [a]" by simp
  from ee(6) er show "\<exists>a. valid_loss (errors t') = valid_loss (errors t) @ [a]" by simp
  from ee(7) er show "\<exists>a. runtime (errors t') = runtime (errors t) @ [a]" by simp
  from ee(8) er show "params (errors t') = params (errors t)" by simp
  from ee(9) er show "(test_acc (errors t') = test_acc (errors t) \<and> test_loss (errors t') = test_loss (errors t))
         \<or> (\<exists>a b. test_acc (errors t') = test_acc (errors t) @ [a]
               \<and> test_loss (errors t') = test_loss (errors t) @ [b])" by auto
  from st have cfg: "config tp = config t" by (simp add: same_static_def)
  from ee(10) cfg show "files (fs t') (errors_path (config t)) = Some (errors t')" by simp
  from ee(11) cfg show "save (config t) \<in> dirs (fs t')" by simp
  from ee(12) ne show "new_epoch_calls (events t') = new_epoch_calls (events t) @ [e]" by simp
  from ee(14) lc show "log_calls (events t') = Suc (log_calls (events t))" by simp
  from ee(13) cc show "checkpoint_calls (events t') = checkpoint_calls (events t) @
              (if using_step_function env
               then (case periodic_checkpointer t of None \<Rightarrow> []
                     | Some pc \<Rightarrow> [(period pc, max_iter pc, e)])
               else [])" by simp
  from ee(15) c show "clock t' = clock t + 2" by simp
qed

lemma epoch_end_returns:
  assumes "length (test_statistics env (world t)) \<noteq> 1"
  shows "\<exists>t'. epoch_end env e t = Inr t'"
proof (cases "test_statistics env (world t)")
  case Nil
  then show ?thesis by (simp add: epoch_end_def record_anytime_def)
next
  case (Cons a rs)
  with assms obtain b rest where "rs = b # rest" by (cases rs) auto
  with Cons show ?thesis by (simp add: epoch_end_def record_anytime_def)
qed

lemma search_epoch_returns:
  assumes wb: "well_behaved env" and rd: "ready env t"
  shows "\<exists>t'. search_epoch env e t = Inr t'"
proof (cases "using_step_function env")
  case False
  obtain x1 x2 x3 x4 where st: "train_statistics env (new_epoch env e (world t)) = (x1, x2, x3, x4)"
    by (cases "train_statistics env (new_epoch env e (world t))") auto
  from wb have "\<And>t. \<exists>t'. epoch_end env e t = Inr t'"
    by (intro epoch_end_returns) (simp add: well_behaved_def)
  with False st show ?thesis
    by (simp add: search_epoch_def Let_def emit_def)
next
  case True
  define t1 where "t1 = (emit (NewEpoch e) (t\<lparr>world := new_epoch env e (world t)\<rparr>))
                           \<lparr>clock := Suc (clock t)\<rparr>"
  from rd True have r1: "scheduler t1 \<noteq> None"
    by (simp_all add: ready_def t1_def emit_def)
  from wb have sz: "\<forall>l. 0 < size0 env l" by (simp add: well_behaved_def)
  from search_steps_returns [OF sz r1] obtain t2 where
    loop: "for_each (search_step env) (zip (train_queue t1) (valid_queue t1)) t1 = Inr t2"
    by blast
  from search_steps_frame [OF loop] rd True have
    r2: "scheduler t2 \<noteq> None" "checkpointer t2 \<noteq> None" "periodic_checkpointer t2 \<noteq> None"
    by (simp_all add: same_attrs_def ready_def t1_def emit_def)
  then have g: "get_scheduler t2 = Inr t2" by (simp add: get_scheduler_Inr)
  from r2 obtain t4 where
    ck: "checkpoint_step env e
               (emit SchedulerStep (t2\<lparr>world := scheduler_step env (world t2)\<rparr>)) = Inr t4"
    by (auto simp: checkpoint_step_Inr emit_def)
  from wb have "\<And>t. \<exists>t'. epoch_end env e t = Inr t'"
    by (intro epoch_end_returns) (simp add: well_behaved_def)
  with True loop [unfolded t1_def] g ck show ?thesis
    by (simp add: search_epoch_def Let_def emit_def)
qed




lemma ready_static: "same_static t t' \<Longrightarrow> ready env t \<Longrightarrow> ready env t'"
  by (simp add: same_static_def ready_def)

lemma search_loop_returns:
  assumes wb: "well_behaved env" and rd: "ready env t"
  shows "\<exists>t'. for_each (search_epoch env) es t = Inr t'"
proof -
  have "\<exists>t'. for_each (search_epoch env) es t = Inr t' \<and> ready env t'"
  proof (rule for_each_returns [where P = "ready env"], goal_cases)
    case (1 x s)
    from search_epoch_returns [OF wb 1] obtain s1 where s1: "search_epoch env x s = Inr s1"
      by blast
    from search_epoch_effect(1) [OF s1] 1 have "ready env s1" by (rule ready_static)
    with s1 show ?case by blast
  qed (rule rd)
  then show ?thesis by blast
qed

lemma search_loop_calls:
  assumes "for_each (search_epoch env) es t = Inr t'"
  shows "new_epoch_calls (events t') = new_epoch_calls (events t) @ es
       \<and> log_calls (events t') = log_calls (events t) + length es
       \<and> clock t' = clock t + 2 * length es"
  using assms
proof (induction es arbitrary: t)
  case Nil
  then show ?case by simp
next
  case (Cons e es)
  from Cons.prems obtain t1 where
    ep: "search_epoch env e t = Inr t1" and rest: "for_each (search_epoch env) es t1 = Inr t'"
    by (auto split: sum.splits)
  from Cons.IH [OF rest] search_epoch_effect(12,13,15) [OF ep] show ?case by simp
qed


lemma search_loop_lists:
  assumes "for_each (search_epoch env) es t = Inr t'" and "lists_inv k (errors t)"
  shows "lists_inv (k + length es) (errors t')"
  using assms
proof (induction es arbitrary: t k)
  case Nil
  then show ?case by simp
next
  case (Cons e es)
  from Cons.prems(1) obtain t1 where
    ep: "search_epoch env e t = Inr t1" and rest: "for_each (search_epoch env) es t1 = Inr t'"
    by (auto split: sum.splits)
  note ef = search_epoch_effect [OF ep]
  from ef(3-7,9) Cons.prems(2) have "lists_inv (Suc k) (errors t1)"
    by (auto simp: lists_inv_def)
  from Cons.IH [OF rest this] show ?case by simp
qed

lemma extended_by_0 [simp]: "extended_by 0 xs xs"
  by (simp add: extended_by_def)

lemma extended_by_step:
  "extended_by k (xs @ [a]) new \<Longrightarrow> extended_by (Suc k) xs new"
  by (auto simp: extended_by_def) (metis append_eq_conv_conj append_take_drop_id append.assoc)

lemma search_loop_extends:
  assumes "for_each (search_epoch env) es t = Inr t'"
  shows "extended_by (length es) (train_acc (errors t)) (train_acc (errors t'))
       \<and> extended_by (length es) (train_loss (errors t)) (train_loss (errors t'))
       \<and> extended_by (length es) (valid_acc (errors t)) (valid_acc (errors t'))
       \<and> extended_by (length es) (valid_loss (errors t)) (valid_loss (errors t'))
       \<and> extended_by (length es) (runtime (errors t)) (runtime (errors t'))"
  using assms
proof (induction es arbitrary: t)
  case Nil
  then show ?case by simp
next
  case (Cons e es)
  from Cons.prems(1) obtain t1 where
    ep: "search_epoch env e t = Inr t1" and rest: "for_each (search_epoch env) es t1 = Inr t'"
    by (auto split: sum.splits)
  note ef = search_epoch_effect [OF ep]
  from Cons.IH [OF rest] ef(3-7) show ?case
    by (auto intro: extended_by_step)
qed

lemma search_loop_reset:
  assumes "for_each (search_epoch env) es t = Inr t'" and "all_reset t"
  shows "all_reset t'"
proof -
  have step: "\<And>x s s1. all_reset s \<Longrightarrow> search_epoch env x s = Inr s1 \<Longrightarrow> all_reset s1"
    by (rule search_epoch_effect(2))
  from step assms(2) assms(1) show ?thesis by (rule for_each_preserves)
qed


subsection \<open>The prologue of the search\<close>

lemma setup_checkpointers_fst:
  "config t = config u \<Longrightarrow> world t = world u \<Longrightarrow>
   fst (setup_checkpointers env r sf t) = fst (setup_checkpointers env r sf u)"
  by (simp add: setup_checkpointers_def Let_def emit_def split: prod.splits)

lemma setup_checkpointers_effect:
  assumes "setup_checkpointers env r sf t = (s, t')"
  shows "scheduler t' = scheduler t" and "errors t' = errors t" and "config t' = config t"
    and "epochs t' = epochs t" and "fs t' = fs t" and "clock t' = clock t"
    and "train_queue t' = train_queue t" and "valid_queue t' = valid_queue t"
    and "test_queue t' = test_queue t"
    and "train_top1 t' = train_top1 t" and "train_top5 t' = train_top5 t"
    and "train_loss_meter t' = train_loss_meter t" and "val_top1 t' = val_top1 t"
    and "val_top5 t' = val_top5 t" and "val_loss_meter t' = val_loss_meter t"
    and "new_epoch_calls (events t') = new_epoch_calls (events t)"
    and "checkpoint_calls (events t') = checkpoint_calls (events t)"
    and "log_calls (events t') = log_calls (events t)"
    and "checkpointer t' = Some \<lparr>save_dir = (if sf then save (config t) @ ''/search''
                                                else save (config t) @ ''/eval'')\<rparr>"
    and "periodic_checkpointer t' =
           Some \<lparr>period = 1, max_iter = (if sf then search_epochs (config t)
                                           else evaluation_epochs (config t))\<rparr>"
  using assms
  by (auto simp: setup_checkpointers_def Let_def emit_def split: prod.splits if_splits)

lemma loop_start_effect:
  shows "errors (loop_start env r t) = errors t" and "config (loop_start env r t) = config t"
    and "epochs (loop_start env r t) = epochs t" and "fs (loop_start env r t) = fs t"
    and "clock (loop_start env r t) = clock t"
    and "all_reset (loop_start env r t) = all_reset t"
    and "new_epoch_calls (events (loop_start env r t)) = new_epoch_calls (events t)"
    and "checkpoint_calls (events (loop_start env r t)) = checkpoint_calls (events t)"
    and "log_calls (events (loop_start env r t)) = log_calls (events t)"
    and "periodic_checkpointer (loop_start env r t) =
           Some \<lparr>period = 1, max_iter = search_epochs (config t)\<rparr>"
    and "using_step_function env \<or> scheduler t \<noteq> None \<Longrightarrow> ready env (loop_start env r t)"
proof -
  define t2 where "t2 = (let t1 = emit BeforeTraining (t\<lparr>world := before_training env (world t)\<rparr>)
      in if using_step_function env
                then t1\<lparr>scheduler := Some (CosineAnnealingLR (epochs t1))\<rparr> else t1)"
  have ls: "loop_start env r t = snd (setup_checkpointers env r True t2)"
    by (simp add: loop_start_def t2_def Let_def)
  obtain s where st: "setup_checkpointers env r True t2 = (s, loop_start env r t)"
    by (cases "setup_checkpointers env r True t2") (simp add: ls)
  note ef = setup_checkpointers_effect [OF st]
  have t2: "errors t2 = errors t" "config t2 = config t" "epochs t2 = epochs t" "fs t2 = fs t"
    "clock t2 = clock t" "train_top1 t2 = train_top1 t" "train_top5 t2 = train_top5 t"
    "train_loss_meter t2 = train_loss_meter t" "val_top1 t2 = val_top1 t"
    "val_top5 t2 = val_top5 t" "val_loss_meter t2 = val_loss_meter t"
    "new_epoch_calls (events t2) = new_epoch_calls (events t)"
    "checkpoint_calls (events t2) = checkpoint_calls (events t)"
    "log_calls (events t2) = log_calls (events t)"
    by (simp_all add: t2_def Let_def emit_def)
  show "errors (loop_start env r t) = errors t" using ef(2) t2 by simp
  show "config (loop_start env r t) = config t" using ef(3) t2 by simp
  show "epochs (loop_start env r t) = epochs t" using ef(4) t2 by simp
  show "fs (loop_start env r t) = fs t" using ef(5) t2 by simp
  show "clock (loop_start env r t) = clock t" using ef(6) t2 by simp
  show "all_reset (loop_start env r t) = all_reset t" using ef(10-15) t2 by (simp add: all_reset_def)
  show "new_epoch_calls (events (loop_start env r t)) = new_epoch_calls (events t)"
    using ef(16) t2 by simp
  show "checkpoint_calls (events (loop_start env r t)) = checkpoint_calls (events t)"
    using ef(17) t2 by simp
  show "log_calls (events (loop_start env r t)) = log_calls (events t)" using ef(18) t2 by simp
  show "periodic_checkpointer (loop_start env r t) =
           Some \<lparr>period = 1, max_iter = search_epochs (config t)\<rparr>"
    using ef(20) t2 by simp
  show "ready env (loop_start env r t)" if "using_step_function env \<or> scheduler t \<noteq> None"
  proof -
    from that have "scheduler t2 \<noteq> None" by (auto simp: t2_def Let_def emit_def)
    with ef(1,19,20) show ?thesis by (simp add: ready_def)
  qed
qed

lemma search_unfold:
  assumes "using_step_function env \<or> scheduler t \<noteq> None"
  shows "search env r t =
           then_do (for_each (search_epoch env) (py_range (start_epoch env r t) (epochs t))
                      (loop_start env r t))
             (\<lambda>t5. Inr (emit AfterTraining (t5\<lparr>world := after_training env (world t5)\<rparr>)))"
proof -
  define t2 where "t2 = (let t1 = emit BeforeTraining (t\<lparr>world := before_training env (world t)\<rparr>)
      in if using_step_function env
                then t1\<lparr>scheduler := Some (CosineAnnealingLR (epochs t1))\<rparr> else t1)"
  from assms have g: "get_scheduler t2 = Inr t2"
    by (auto simp: get_scheduler_Inr t2_def Let_def emit_def)
  have se: "start_epoch env r t = fst (setup_checkpointers env r True t2)"
    unfolding start_epoch_def
    by (rule setup_checkpointers_fst) (simp_all add: t2_def Let_def emit_def)
  have ls: "loop_start env r t = snd (setup_checkpointers env r True t2)"
    by (simp add: loop_start_def t2_def Let_def)
  have ep: "epochs (snd (setup_checkpointers env r True t2)) = epochs t"
    using loop_start_effect(3) [of env r t] ls by simp
  have "search env r t =
          then_do (get_scheduler t2)
            (\<lambda>t3. case setup_checkpointers env r True t3 of
                 (sx, t4) \<Rightarrow>
                   then_do (for_each (search_epoch env) (py_range sx (epochs t4)) t4)
                     (\<lambda>t5. Inr (emit AfterTraining
                                  (t5\<lparr>world := after_training env (world t5)\<rparr>))))"
    by (simp add: search_def t2_def Let_def)
  also have "\<dots> = then_do (for_each (search_epoch env) (py_range (start_epoch env r t) (epochs t))
                      (loop_start env r t))
             (\<lambda>t5. Inr (emit AfterTraining (t5\<lparr>world := after_training env (world t5)\<rparr>)))"
    using ep by (cases "setup_checkpointers env r True t2") (simp add: g se ls)
  finally show ?thesis .
qed

lemma search_no_scheduler:
  assumes "\<not> using_step_function env" and "scheduler t = None"
  shows "search env r t =
           Inl (AttributeError, emit BeforeTraining (t\<lparr>world := before_training env (world t)\<rparr>))"
  using assms by (simp add: search_def Let_def get_scheduler_def emit_def)

lemma init_fresh:
  shows "scheduler (init env cfg w f) = None" and "all_reset (init env cfg w f)"
    and "lists_inv 0 (errors (init env cfg w f))" and "events (init env cfg w f) = []"
    and "epochs (init env cfg w f) = search_epochs cfg" and "config (init env cfg w f) = cfg"
    and "fs (init env cfg w f) = f"
  by (simp_all add: init_def prepare_dataloaders_def all_reset_def lists_inv_def split: prod.splits)

lemma well_behaved_env0: "well_behaved env0" "well_behaved env1"
  by (simp_all add: well_behaved_def env0_def env1_def)

subsection \<open>Claims about single methods\<close>

text \<open>
  Claim C8. For every logits/target pair, \<open>_store_accuracies\<close> called with a split other
  than \<open>'train'\<close> or \<open>'val'\<close> raises \<open>ValueError\<close>, and the trainer at the raise is
  the trainer of the call: none of the six meters has been updated.
\<close>

theorem store_accuracies_unknown_split:
  assumes "split \<noteq> ''train''" and "split \<noteq> ''val''"
  shows "store_accuracies env logits target split t = Inl (ValueError, t)"
  using assms by (simp add: store_accuracies_def Let_def split: prod.splits)

theorem store_accuracies_unknown_split_witness:
  "''test'' \<noteq> ''train'' \<and> ''test'' \<noteq> ''val''
   \<and> store_accuracies env0 5 1 ''test'' trainer0 = Inl (ValueError, trainer0)"
  using store_accuracies_unknown_split [of "''test''" env0 5 1 trainer0] by simp

text \<open>
  Claim C6 says that \<open>search\<close> runs to completion for an optimizer whose
  \<open>using_step_function\<close> is false. The code does not: a trainer fresh from \<open>__init__\<close>
  has no \<open>scheduler\<close> attribute, the branch that assigns it is skipped, and the argument
  \<open>scheduler=self.scheduler\<close> of \<open>_setup_checkpointers\<close> raises \<open>AttributeError\<close>
  before any epoch runs, although the environment is well behaved.
\<close>

theorem search_without_step_function_raises:
  "search env1 (PStr []) trainer1 =
     Inl (AttributeError, emit BeforeTraining (trainer1\<lparr>world := before_training env1 (world trainer1)\<rparr>))
   \<and> \<not> using_step_function env1 \<and> well_behaved env1"
  using search_no_scheduler [of env1 trainer1 "PStr []"] init_fresh(1) [of env1 cfg0 0 fs0]
    well_behaved_env0(2)
  by (simp add: trainer1_def) (simp add: env1_def)

subsection \<open>The return of the search\<close>

lemma length_py_range: "length (py_range s n) = nat (n - s)"
  by (simp add: py_range_def)

lemma search_returns:
  assumes "using_step_function env \<or> scheduler t \<noteq> None" and "well_behaved env"
  shows "\<exists>t5. for_each (search_epoch env) (py_range (start_epoch env r t) (epochs t))
                (loop_start env r t) = Inr t5
            \<and> search env r t = Inr (emit AfterTraining (t5\<lparr>world := after_training env (world t5)\<rparr>))"
proof -
  from loop_start_effect(11) [OF assms(1)] have rd: "ready env (loop_start env r t)" .
  from search_loop_returns [OF assms(2) rd] obtain t5 where
    run: "for_each (search_epoch env) (py_range (start_epoch env r t) (epochs t))
            (loop_start env r t) = Inr t5"
    by blast
  with search_unfold [OF assms(1), of r] show ?thesis by simp
qed

lemma after_training_sel:
  "errors (emit AfterTraining (t\<lparr>world := w\<rparr>)) = errors t"
  "new_epoch_calls (events (emit AfterTraining (t\<lparr>world := w\<rparr>))) = new_epoch_calls (events t)"
  "checkpoint_calls (events (emit AfterTraining (t\<lparr>world := w\<rparr>))) = checkpoint_calls (events t)"
  "log_calls (events (emit AfterTraining (t\<lparr>world := w\<rparr>))) = log_calls (events t)"
  "fs (emit AfterTraining (t\<lparr>world := w\<rparr>)) = fs t"
  "all_reset (emit AfterTraining (t\<lparr>world := w\<rparr>)) = all_reset t"
  by (simp_all add: emit_def all_reset_def)

subsection \<open>The search as a whole\<close>

text \<open>
  Claim C1. Let \<open>N\<close> be the number of search epochs and \<open>s\<close> the start epoch that
  the checkpoint setup returns. Whenever the scheduler exists when the setup is called
  and the environment is well behaved, \<open>search\<close> returns, the calls of
  \<open>optimizer.new_epoch\<close> it makes are exactly those for \<open>s, s + 1, ..., N - 1\<close>, once
  each and in increasing order, and each of \<open>train_acc\<close>, \<open>train_loss\<close>,
  \<open>valid_acc\<close>, \<open>valid_loss\<close> and \<open>runtime\<close> is the old list with one entry
  appended per epoch run.
\<close>

theorem search_runs_each_epoch_once:
  assumes "using_step_function env \<or> scheduler t \<noteq> None" and "well_behaved env"
  shows "\<exists>t'. search env resume_from t = Inr t'
     \<and> new_epoch_calls (events t') =
         new_epoch_calls (events t) @ py_range (start_epoch env resume_from t) (epochs t)
     \<and> py_range (start_epoch env resume_from t) (epochs t)
         = [start_epoch env resume_from t..epochs t - 1]
     \<and> extended_by (nat (epochs t - start_epoch env resume_from t))
          (train_acc (errors t)) (train_acc (errors t'))
     \<and> extended_by (nat (epochs t - start_epoch env resume_from t))
          (train_loss (errors t)) (train_loss (errors t'))
     \<and> extended_by (nat (epochs t - start_epoch env resume_from t))
          (valid_acc (errors t)) (valid_acc (errors t'))
     \<and> extended_by (nat (epochs t - start_epoch env resume_from t))
          (valid_loss (errors t)) (valid_loss (errors t'))
     \<and> extended_by (nat (epochs t - start_epoch env resume_from t))
          (runtime (errors t)) (runtime (errors t'))"
proof -
  let ?es = "py_range (start_epoch env resume_from t) (epochs t)"
  from search_returns [OF assms, of resume_from] obtain t5 where
    run: "for_each (search_epoch env) ?es (loop_start env resume_from t) = Inr t5" and
    res: "search env resume_from t =
            Inr (emit AfterTraining (t5\<lparr>world := after_training env (world t5)\<rparr>))"
    by blast
  from search_loop_calls [OF run] have
    "new_epoch_calls (events t5) = new_epoch_calls (events t) @ ?es"
    by (simp add: loop_start_effect)
  moreover from search_loop_extends [OF run] have
    "extended_by (nat (epochs t - start_epoch env resume_from t))
          (train_acc (errors t)) (train_acc (errors t5))"
    "extended_by (nat (epochs t - start_epoch env resume_from t))
          (train_loss (errors t)) (train_loss (errors t5))"
    "extended_by (nat (epochs t - start_epoch env resume_from t))
          (valid_acc (errors t)) (valid_acc (errors t5))"
    "extended_by (nat (epochs t - start_epoch env resume_from t))
          (valid_loss (errors t)) (valid_loss (errors t5))"
    "extended_by (nat (epochs t - start_epoch env resume_from t))
          (runtime (errors t)) (runtime (errors t5))"
    by (simp_all add: loop_start_effect length_py_range)
  ultimately show ?thesis using res
    by (simp add: after_training_sel py_range_def)
qed

lemma start_epoch_env0: "start_epoch env0 (PStr []) trainer0 = 0"
  by (simp add: start_epoch_def setup_checkpointers_def Let_def)

lemma epochs_trainer0: "epochs trainer0 = 2"
  by (simp add: trainer0_def init_fresh cfg0_def)

lemma py_range_0_2: "py_range 0 2 = [0, 1]"
  by (simp add: py_range_def upto_rec1)

lemma trainer0_fresh:
  "events trainer0 = []" "train_acc (errors trainer0) = []" "train_loss (errors trainer0) = []"
  "valid_acc (errors trainer0) = []" "valid_loss (errors trainer0) = []"
  "runtime (errors trainer0) = []" "test_acc (errors trainer0) = []"
  "test_loss (errors trainer0) = []" "scheduler trainer0 = None" "config trainer0 = cfg0"
  "all_reset trainer0" "fs trainer0 = fs0"
  using init_fresh [of env0 cfg0 0 fs0] by (auto simp: trainer0_def lists_inv_def)

theorem search_runs_each_epoch_once_witness:
  "\<exists>t'. search env0 (PStr []) trainer0 = Inr t'
     \<and> new_epoch_calls (events t') = [0, 1]
     \<and> length (train_acc (errors t')) = 2 \<and> length (runtime (errors t')) = 2"
proof -
  have a: "using_step_function env0 \<or> scheduler trainer0 \<noteq> None" by (simp add: env0_def)
  from search_runs_each_epoch_once [OF a well_behaved_env0(1), of "PStr []"]
  show ?thesis
    by (auto simp: start_epoch_env0 epochs_trainer0 py_range_0_2 extended_by_def trainer0_fresh)
qed






subsection \<open>Meters and their samples\<close>

lemma meter_of_Nil: "meter_of [] = reset"
  by (simp add: meter_of_def reset_def weighted_avg_def weighted_sum_def total_count_def)

lemma weighted_snoc:
  "weighted_sum (xs @ [(v, n)]) = weighted_sum xs + v * real n"
  "total_count (xs @ [(v, n)]) = total_count xs + n"
  by (simp_all add: weighted_sum_def total_count_def)

lemma update_meter_of:
  assumes "update v n (meter_of xs) = Inr m"
  shows "m = meter_of (xs @ [(v, n)])"
  using assms
  by (simp add: update_Inr meter_of_def weighted_avg_def weighted_snoc)

lemma search_step_meters:
  assumes "search_step env pair t = Inr t'"
    and "step env (fst pair) (snd pair) (world t) = ((lt, lv, a, b), w)"
  shows "world t' = w"
    and "update (fst (accuracy env lt (snd (fst pair)))) (size0 env lt) (train_top1 t)
           = Inr (train_top1 t')"
    and "update (fst (accuracy env lv (snd (snd pair)))) (size0 env lv) (val_top1 t)
           = Inr (val_top1 t')"
    and "update a 1 (train_loss_meter t) = Inr (train_loss_meter t')"
    and "update b 1 (val_loss_meter t) = Inr (val_loss_meter t')"
proof -
  obtain dt dv where pair: "pair = (dt, dv)" by (cases pair)
  obtain p1 p5 where acc1: "accuracy env lt (snd dt) = (p1, p5)"
    by (cases "accuracy env lt (snd dt)")
  obtain q1 q5 where acc2: "accuracy env lv (snd dv) = (q1, q5)"
    by (cases "accuracy env lv (snd dv)")
  from assms have
    "world t' = w
     \<and> update p1 (size0 env lt) (train_top1 t) = Inr (train_top1 t')
     \<and> update q1 (size0 env lv) (val_top1 t) = Inr (val_top1 t')
     \<and> update a 1 (train_loss_meter t) = Inr (train_loss_meter t')
     \<and> update b 1 (val_loss_meter t) = Inr (val_loss_meter t')"
    by (auto simp: search_step_def store_accuracies_def then_do_eq_Inr meter_update_Inr
          get_scheduler_Inr emit_def pair acc1 acc2 Let_def)
  then show "world t' = w"
    and "update (fst (accuracy env lt (snd (fst pair)))) (size0 env lt) (train_top1 t)
           = Inr (train_top1 t')"
    and "update (fst (accuracy env lv (snd (snd pair)))) (size0 env lv) (val_top1 t)
           = Inr (val_top1 t')"
    and "update a 1 (train_loss_meter t) = Inr (train_loss_meter t')"
    and "update b 1 (val_loss_meter t) = Inr (val_loss_meter t')"
    by (simp_all add: pair acc1 acc2)
qed

lemma search_steps_meters:
  assumes "for_each (search_step env) pairs t = Inr t'"
    and "train_top1 t = meter_of xa" and "val_top1 t = meter_of xb"
    and "train_loss_meter t = meter_of xc" and "val_loss_meter t = meter_of xd"
  shows "train_top1 t' = meter_of (xa @ train_top1_samples env (step_results env pairs (world t)))
       \<and> val_top1 t' = meter_of (xb @ val_top1_samples env (step_results env pairs (world t)))
       \<and> train_loss_meter t' = meter_of (xc @ train_loss_samples (step_results env pairs (world t)))
       \<and> val_loss_meter t' = meter_of (xd @ val_loss_samples (step_results env pairs (world t)))"
  using assms
proof (induction pairs arbitrary: t xa xb xc xd)
  case Nil
  then show ?case
    by (simp add: train_top1_samples_def val_top1_samples_def train_loss_samples_def
          val_loss_samples_def)
next
  case (Cons pair pairs)
  from Cons.prems(1) obtain t1 where
    st: "search_step env pair t = Inr t1" and rest: "for_each (search_step env) pairs t1 = Inr t'"
    by (auto split: sum.splits)
  obtain lt lv a b w where sr: "step env (fst pair) (snd pair) (world t) = ((lt, lv, a, b), w)"
    by (cases "step env (fst pair) (snd pair) (world t)") auto
  note m = search_step_meters [OF st sr]
  from m(2) Cons.prems(2) have a1: "train_top1 t1 =
      meter_of (xa @ [(fst (accuracy env lt (snd (fst pair))), size0 env lt)])"
    by (simp add: update_meter_of)
  from m(3) Cons.prems(3) have b1: "val_top1 t1 =
      meter_of (xb @ [(fst (accuracy env lv (snd (snd pair))), size0 env lv)])"
    by (simp add: update_meter_of)
  from m(4) Cons.prems(4) have c1: "train_loss_meter t1 = meter_of (xc @ [(a, 1)])"
    by (simp add: update_meter_of)
  from m(5) Cons.prems(5) have d1: "val_loss_meter t1 = meter_of (xd @ [(b, 1)])"
    by (simp add: update_meter_of)
  from Cons.IH [OF rest a1 b1 c1 d1] m(1) sr show ?case
    by (simp add: train_top1_samples_def val_top1_samples_def train_loss_samples_def
          val_loss_samples_def top1_sample_def)
qed

lemma search_epoch_averages:
  assumes ep: "search_epoch env e t = Inr t'" and st: "using_step_function env"
    and rs: "all_reset t"
  shows "train_acc (errors t') =
           train_acc (errors t) @ [weighted_avg (train_top1_samples env (epoch_results env e t))]"
    and "train_loss (errors t') =
           train_loss (errors t) @ [weighted_avg (train_loss_samples (epoch_results env e t))]"
    and "valid_acc (errors t') =
           valid_acc (errors t) @ [weighted_avg (val_top1_samples env (epoch_results env e t))]"
    and "valid_loss (errors t') =
           valid_loss (errors t) @ [weighted_avg (val_loss_samples (epoch_results env e t))]"
proof -
  define t1 where "t1 = (emit (NewEpoch e) (t\<lparr>world := new_epoch env e (world t)\<rparr>))
                           \<lparr>clock := Suc (clock t)\<rparr>"
  from ep st obtain t2 t4 where
    loop: "for_each (search_step env) (zip (train_queue t1) (valid_queue t1)) t1 = Inr t2"
    and ck: "checkpoint_step env e
               (emit SchedulerStep (t2\<lparr>world := scheduler_step env (world t2)\<rparr>)) = Inr t4"
    and fin: "epoch_end env e
                (t4\<lparr>clock := clock t4 + 1,
                    errors := append_epoch (avg (train_top1 t4)) (avg (train_loss_meter t4))
                                (avg (val_top1 t4)) (avg (val_loss_meter t4))
                                (time env (clock t4) - time env (clock t)) (errors t4)\<rparr>) = Inr t'"
    by (auto simp: search_epoch_def Let_def then_do_eq_Inr get_scheduler_Inr t1_def emit_def)
  from rs have r1: "train_top1 t1 = meter_of []" "val_top1 t1 = meter_of []"
    "train_loss_meter t1 = meter_of []" "val_loss_meter t1 = meter_of []"
    by (simp_all add: all_reset_def t1_def emit_def meter_of_Nil)
  have rs1: "step_results env (zip (train_queue t1) (valid_queue t1)) (world t1)
               = epoch_results env e t"
    by (simp add: epoch_results_def t1_def emit_def)
  from search_steps_meters [OF loop r1] rs1 have m2:
    "train_top1 t2 = meter_of (train_top1_samples env (epoch_results env e t))"
    "val_top1 t2 = meter_of (val_top1_samples env (epoch_results env e t))"
    "train_loss_meter t2 = meter_of (train_loss_samples (epoch_results env e t))"
    "val_loss_meter t2 = meter_of (val_loss_samples (epoch_results env e t))"
    by simp_all
  note c = checkpoint_step_effect [OF ck]
  from c(8,10,11,13) m2 have m4:
    "avg (train_top1 t4) = weighted_avg (train_top1_samples env (epoch_results env e t))"
    "avg (val_top1 t4) = weighted_avg (val_top1_samples env (epoch_results env e t))"
    "avg (train_loss_meter t4) = weighted_avg (train_loss_samples (epoch_results env e t))"
    "avg (val_loss_meter t4) = weighted_avg (val_loss_samples (epoch_results env e t))"
    by (simp_all add: emit_def meter_of_def)
  from search_steps_frame [OF loop] c(2) have e4: "errors t4 = errors t"
    by (simp add: same_attrs_def t1_def emit_def)
  note ee = epoch_end_effect [OF fin]
  from ee(3) m4 e4 show "train_acc (errors t') =
           train_acc (errors t) @ [weighted_avg (train_top1_samples env (epoch_results env e t))]"
    by simp
  from ee(4) m4 e4 show "train_loss (errors t') =
           train_loss (errors t) @ [weighted_avg (train_loss_samples (epoch_results env e t))]"
    by simp
  from ee(5) m4 e4 show "valid_acc (errors t') =
           valid_acc (errors t) @ [weighted_avg (val_top1_samples env (epoch_results env e t))]"
    by simp
  from ee(6) m4 e4 show "valid_loss (errors t') =
           valid_loss (errors t) @ [weighted_avg (val_loss_samples (epoch_results env e t))]"
    by simp
qed


text \<open>
  Claim C10. A trainer fresh from \<open>__init__\<close> has all six meters in the reset state,
  and still has when the epoch loop of \<open>search\<close> starts; every completed epoch ends with all six reset, so every epoch of the loop starts with
  them reset. Hence, in the step-function branch, the entries that an epoch appends to
  \<open>train_acc\<close>, \<open>train_loss\<close>, \<open>valid_acc\<close> and \<open>valid_loss\<close> are the weighted
  averages over the step results of that epoch alone.
\<close>

theorem meters_reset_every_epoch:
  "all_reset (init env cfg w f)
   \<and> all_reset (loop_start env resume_from (init env cfg w f))
   \<and> (search_epoch env e t = Inr t' \<longrightarrow> all_reset t')
   \<and> (all_reset u \<and> for_each (search_epoch env) es u = Inr u' \<longrightarrow> all_reset u')
   \<and> (using_step_function env \<and> all_reset t \<and> search_epoch env e t = Inr t' \<longrightarrow>
        train_acc (errors t') =
          train_acc (errors t) @ [weighted_avg (train_top1_samples env (epoch_results env e t))]
      \<and> train_loss (errors t') =
          train_loss (errors t) @ [weighted_avg (train_loss_samples (epoch_results env e t))]
      \<and> valid_acc (errors t') =
          valid_acc (errors t) @ [weighted_avg (val_top1_samples env (epoch_results env e t))]
      \<and> valid_loss (errors t') =
          valid_loss (errors t) @ [weighted_avg (val_loss_samples (epoch_results env e t))])"
proof (intro conjI impI)
  show "all_reset (init env cfg w f)" by (rule init_fresh(2))
next
  show "all_reset (loop_start env resume_from (init env cfg w f))"
    by (simp add: loop_start_effect(6) init_fresh(2))
next
  assume "search_epoch env e t = Inr t'"
  then show "all_reset t'" by (rule search_epoch_effect(2))
next
  assume "all_reset u \<and> for_each (search_epoch env) es u = Inr u'"
  then have "for_each (search_epoch env) es u = Inr u'" and "all_reset u" by simp_all
  then show "all_reset u'" by (rule search_loop_reset)
next
  assume a: "using_step_function env \<and> all_reset t \<and> search_epoch env e t = Inr t'"
  then have ep: "search_epoch env e t = Inr t'" and st: "using_step_function env"
    and rs: "all_reset t" by simp_all
  note av = search_epoch_averages [OF ep st rs]
  from av(1) show "train_acc (errors t') =
          train_acc (errors t) @ [weighted_avg (train_top1_samples env (epoch_results env e t))]" .
  from av(2) show "train_loss (errors t') =
          train_loss (errors t) @ [weighted_avg (train_loss_samples (epoch_results env e t))]" .
  from av(3) show "valid_acc (errors t') =
          valid_acc (errors t) @ [weighted_avg (val_top1_samples env (epoch_results env e t))]" .
  from av(4) show "valid_loss (errors t') =
          valid_loss (errors t) @ [weighted_avg (val_loss_samples (epoch_results env e t))]" .
qed

lemma epoch_results_env0:
  "epoch_results env0 1 (loop_start env0 (PStr []) trainer0)
     = [((50, 1), (60, 1), 1 / 2, 1 / 4), ((70, 2), (80, 2), 1 / 2, 1 / 4)]"
  by (simp add: epoch_results_def loop_start_def setup_checkpointers_def trainer0_def init_def
        prepare_dataloaders_def env0_def emit_def Let_def)

lemma env0_sel:
  "accuracy env0 l y = (real l, 100)" "size0 env0 l = 4" "input_size env0 x = 4"
  "forward env0 x w = x" "using_step_function env0" "\<not> queryable env0 w"
  by (simp_all add: env0_def)

theorem meters_reset_every_epoch_witness:
  "\<exists>t'. search_epoch env0 1 (loop_start env0 (PStr []) trainer0) = Inr t'
     \<and> all_reset (loop_start env0 (PStr []) trainer0) \<and> using_step_function env0
     \<and> all_reset t'
     \<and> train_acc (errors t') = [60] \<and> train_loss (errors t') = [1 / 2]
     \<and> valid_acc (errors t') = [70] \<and> valid_loss (errors t') = [1 / 4]"
proof -
  let ?t = "loop_start env0 (PStr []) trainer0"
  have st: "using_step_function env0" by (simp add: env0_def)
  have rd: "ready env0 ?t"
    by (rule loop_start_effect(11)) (simp add: env0_def)
  have rs: "all_reset ?t" by (simp add: loop_start_effect trainer0_fresh)
  from search_epoch_returns [OF well_behaved_env0(1) rd] obtain t' where
    ep: "search_epoch env0 1 ?t = Inr t'"
    by blast
  note th = meters_reset_every_epoch [of env0 cfg0 0 fs0 "PStr []" 1 ?t t' ?t "[1]" t']
  from th [THEN conjunct2, THEN conjunct2, THEN conjunct1, THEN mp, OF ep]
  have a: "all_reset t'" .
  from th [THEN conjunct2, THEN conjunct2, THEN conjunct2, THEN conjunct2, THEN mp,
      OF conjI [OF st conjI [OF rs ep]]]
  have b: "train_acc (errors t') = [60] \<and> train_loss (errors t') = [1 / 2]
     \<and> valid_acc (errors t') = [70] \<and> valid_loss (errors t') = [1 / 4]"
    by (simp add: epoch_results_env0 loop_start_effect trainer0_fresh train_top1_samples_def
          train_loss_samples_def val_top1_samples_def val_loss_samples_def top1_sample_def
          weighted_avg_def weighted_sum_def total_count_def env0_sel)
  from ep rs st a b show ?thesis by blast
qed

subsection \<open>The evaluation run\<close>

lemma setup_checkpointers_events:
  "events (snd (setup_checkpointers env r sf t)) =
     events t @ load_events (if sf then save (config t) @ ''/search''
                             else save (config t) @ ''/eval'') r"
  by (simp add: setup_checkpointers_def load_events_def Let_def emit_def split: prod.splits)

lemma same_attrs_static: "same_attrs t t' \<Longrightarrow> same_static t t'"
  by (simp add: same_attrs_def same_static_def)

lemma retrain_step_effect:
  assumes "retrain_step env clip batch t = Inr t'"
  shows "same_static t t'" and "events t' = events t @ [TrainBatch clip]"
proof -
  obtain lg w where tb: "train_batch env clip batch (world t) = (lg, w)"
    by (cases "train_batch env clip batch (world t)")
  with assms have
    "store_accuracies env lg (snd batch) ''train'' (emit (TrainBatch clip) (t\<lparr>world := w\<rparr>)) = Inr t'"
    by (simp add: retrain_step_def)
  from store_accuracies_frame [OF this]
  show "same_static t t'" and "events t' = events t @ [TrainBatch clip]"
    by (simp_all add: same_attrs_def same_static_def emit_def)
qed

lemma retrain_step_returns:
  assumes "\<forall>l. 0 < size0 env l"
  shows "\<exists>t'. retrain_step env clip batch t = Inr t'"
proof -
  obtain lg w where tb: "train_batch env clip batch (world t) = (lg, w)"
    by (cases "train_batch env clip batch (world t)")
  from assms have "0 < size0 env lg" by simp
  from store_accuracies_returns [OF this, of "''train''"] tb show ?thesis
    by (simp add: retrain_step_def)
qed

lemma retrain_steps:
  assumes "\<forall>l. 0 < size0 env l"
  shows "\<exists>t'. for_each (retrain_step env clip) bs t = Inr t' \<and> same_static t t'
           \<and> events t' = events t @ replicate (length bs) (TrainBatch clip)"
proof (induction bs arbitrary: t)
  case Nil
  show ?case by simp
next
  case (Cons b bs)
  from retrain_step_returns [OF assms] obtain t1 where
    s1: "retrain_step env clip b t = Inr t1" by blast
  note e1 = retrain_step_effect [OF s1]
  from Cons.IH [of t1] obtain t' where
    r: "for_each (retrain_step env clip) bs t1 = Inr t'" and st: "same_static t1 t'"
    and ev: "events t' = events t1 @ replicate (length bs) (TrainBatch clip)"
    by blast
  from e1(1) st have "same_static t t'" by (rule same_static_trans)
  with s1 r ev e1(2) show ?case by (simp add: replicate_app_Cons_same)
qed

lemma retrain_epoch_runs:
  assumes sz: "\<forall>l. 0 < size0 env l"
    and ck: "checkpointer t = Some c" and pc: "periodic_checkpointer t = Some \<lparr>period = 1, max_iter = m\<rparr>"
  shows "\<exists>t'. retrain_epoch env clip e t = Inr t' \<and> same_static t t'
           \<and> events t' = events t @ retrain_events clip (length (train_queue t)) m [e]"
proof -
  from retrain_steps [OF sz] obtain t1 where
    r: "for_each (retrain_step env clip) (train_queue t) t = Inr t1" and st: "same_static t t1"
    and ev: "events t1 = events t @ replicate (length (train_queue t)) (TrainBatch clip)"
    by blast
  from st ck pc have c1: "checkpointer t1 = Some c"
    "periodic_checkpointer t1 = Some \<lparr>period = 1, max_iter = m\<rparr>"
    by (simp_all add: same_static_def)
  let ?t2 = "emit SchedulerStep (t1\<lparr>world := scheduler_step env (world t1)\<rparr>)"
  let ?t3 = "emit (PeriodicCheckpointerStep 1 m e)
               (?t2\<lparr>world := periodic_step env (save_dir c) \<lparr>period = 1, max_iter = m\<rparr> e (world ?t2)\<rparr>)"
  from c1 have cs: "checkpoint_step env e ?t2 = Inr ?t3"
    by (simp add: checkpoint_step_def emit_def)
  have res: "retrain_epoch env clip e t = Inr (?t3\<lparr>train_top1 := reset, train_top5 := reset\<rparr>)"
    by (simp only: retrain_epoch_def r then_do_Inr cs)
  have "same_static t1 (?t3\<lparr>train_top1 := reset, train_top5 := reset\<rparr>)"
    by (simp add: same_static_def emit_def)
  with st have "same_static t (?t3\<lparr>train_top1 := reset, train_top5 := reset\<rparr>)"
    by (rule same_static_trans)
  moreover have "events (?t3\<lparr>train_top1 := reset, train_top5 := reset\<rparr>) =
      events t @ retrain_events clip (length (train_queue t)) m [e]"
    by (simp add: ev emit_def retrain_events_def)
  ultimately show ?thesis using res by blast
qed

lemma retrain_events_append:
  "retrain_events clip n m (es @ es1) = retrain_events clip n m es @ retrain_events clip n m es1"
  by (simp add: retrain_events_def)

lemma retrain_epochs_run:
  assumes sz: "\<forall>l. 0 < size0 env l"
  shows "checkpointer t = Some c \<Longrightarrow> periodic_checkpointer t = Some \<lparr>period = 1, max_iter = m\<rparr>
     \<Longrightarrow> \<exists>t'. for_each (retrain_epoch env clip) es t = Inr t' \<and> same_static t t'
           \<and> events t' = events t @ retrain_events clip (length (train_queue t)) m es"
proof (induction es arbitrary: t)
  case Nil
  show ?case by (simp add: retrain_events_def)
next
  case (Cons e es)
  from retrain_epoch_runs [OF sz Cons.prems, of clip e] obtain t1 where
    s1: "retrain_epoch env clip e t = Inr t1" and st1: "same_static t t1"
    and ev1: "events t1 = events t @ retrain_events clip (length (train_queue t)) m [e]"
    by blast
  from st1 Cons.prems have c1: "checkpointer t1 = Some c"
    "periodic_checkpointer t1 = Some \<lparr>period = 1, max_iter = m\<rparr>"
    and q: "train_queue t1 = train_queue t"
    by (simp_all add: same_static_def)
  from Cons.IH [OF c1] obtain t' where
    r: "for_each (retrain_epoch env clip) es t1 = Inr t'" and st: "same_static t1 t'"
    and ev: "events t' = events t1 @ retrain_events clip (length (train_queue t1)) m es"
    by blast
  from st1 st have "same_static t t'" by (rule same_static_trans)
  moreover have "retrain_events clip (length (train_queue t)) m (e # es) =
      retrain_events clip (length (train_queue t)) m [e]
        @ retrain_events clip (length (train_queue t)) m es"
    using retrain_events_append [of clip _ m "[e]" es] by simp
  ultimately show ?case using s1 r ev ev1 q by simp
qed


lemma retrain_runs:
  assumes sz: "\<forall>l. 0 < size0 env l"
  shows "\<exists>t' s. retrain env r t = Inr t'
           \<and> events t' = events t @ [ResetWeights]
                @ load_events (save (config t) @ ''/eval'') r @ [ArchTrain]
                @ retrain_events (grad_clip (config t) \<noteq> 0) (length (train_queue t))
                    (evaluation_epochs (config t)) (py_range s (evaluation_epochs (config t)))
           \<and> test_queue t' = test_queue t \<and> config t' = config t
           \<and> (\<not> truthy r \<longrightarrow> s = 0)"
proof -
  let ?t1 = "emit ResetWeights (t\<lparr>world := reset_weights env (world t)\<rparr>)"
  obtain s t2 where su: "setup_checkpointers env r False ?t1 = (s, t2)"
    by (cases "setup_checkpointers env r False ?t1")
  note ef = setup_checkpointers_effect [OF su]
  from setup_checkpointers_events [of env r False ?t1] su
  have ev2: "events t2 = events t @ [ResetWeights] @ load_events (save (config t) @ ''/eval'') r"
    by (simp add: emit_def)
  let ?t4 = "(emit ArchTrain (t2\<lparr>world := set_training env True (world t2)\<rparr>))
               \<lparr>train_top1 := reset, train_top5 := reset\<rparr>"
  from ef(3,7,9,19,20) have
    c4: "checkpointer ?t4 = Some \<lparr>save_dir = save (config t) @ ''/eval''\<rparr>"
    and p4: "periodic_checkpointer ?t4 = Some \<lparr>period = 1, max_iter = evaluation_epochs (config t)\<rparr>"
    and q4: "train_queue ?t4 = train_queue t" "test_queue ?t4 = test_queue t" "config ?t4 = config t"
    by (simp_all add: emit_def)
  from retrain_epochs_run [OF sz c4 p4, of "grad_clip (config t) \<noteq> 0"
      "py_range s (evaluation_epochs (config t))"]
  obtain t' where
    run: "for_each (retrain_epoch env (grad_clip (config t) \<noteq> 0))
            (py_range s (evaluation_epochs (config t))) ?t4 = Inr t'"
    and st: "same_static ?t4 t'"
    and ev: "events t' = events ?t4 @ retrain_events (grad_clip (config t) \<noteq> 0)
               (length (train_queue ?t4)) (evaluation_epochs (config t))
               (py_range s (evaluation_epochs (config t)))"
    by blast
  from su run q4(3) have res: "retrain env r t = Inr t'"
    by (simp add: retrain_def Let_def)
  from ev ev2 q4(1) have "events t' = events t @ [ResetWeights]
                @ load_events (save (config t) @ ''/eval'') r @ [ArchTrain]
                @ retrain_events (grad_clip (config t) \<noteq> 0) (length (train_queue t))
                    (evaluation_epochs (config t)) (py_range s (evaluation_epochs (config t)))"
    by (simp add: emit_def)
  moreover from st q4 have "test_queue t' = test_queue t" "config t' = config t"
    by (simp_all add: same_static_def)
  moreover from su have "\<not> truthy r \<longrightarrow> s = 0"
    by (auto simp: setup_checkpointers_def Let_def)
  ultimately show ?thesis using res by blast
qed

lemma test_steps_run:
  assumes isz: "\<forall>x. 0 < input_size env x"
  shows "\<exists>t' m1 m5. for_each (test_step env) bs (t, meter_of xs, top5) = Inr (t', m1, m5)
           \<and> world t' = world t \<and> test_queue t' = test_queue t
           \<and> events t' = events t @ replicate (length bs) (Forward False)
           \<and> m1 = meter_of (xs @ map (test_top1_sample env (world t)) bs)"
proof (induction bs arbitrary: t xs top5)
  case Nil
  show ?case by simp
next
  case (Cons b bs)
  obtain x y where b: "b = (x, y)" by (cases b)
  obtain p1 p5 where acc: "accuracy env (forward env x (world t)) y = (p1, p5)"
    by (cases "accuracy env (forward env x (world t)) y")
  from isz have pos: "0 < input_size env x" by simp
  from update_pos [OF pos] obtain m1 where u1: "update p1 (input_size env x) (meter_of xs) = Inr m1"
    by blast
  from update_pos [OF pos] obtain m5 where u5: "update p5 (input_size env x) top5 = Inr m5"
    by blast
  from update_meter_of [OF u1] have m1: "m1 = meter_of (xs @ [(p1, input_size env x)])" .
  have st: "test_step env b (t, meter_of xs, top5) =
              Inr (emit (Forward False) t, meter_of (xs @ [(p1, input_size env x)]), m5)"
    using u1 u5 m1 by (simp add: test_step_def b acc Let_def)
  from Cons.IH [of "emit (Forward False) t" "xs @ [(p1, input_size env x)]" m5]
  obtain t' n1 n5 where
    r: "for_each (test_step env) bs
          (emit (Forward False) t, meter_of (xs @ [(p1, input_size env x)]), m5) = Inr (t', n1, n5)"
    and w: "world t' = world (emit (Forward False) t)"
    and q: "test_queue t' = test_queue (emit (Forward False) t)"
    and ev: "events t' = events (emit (Forward False) t) @ replicate (length bs) (Forward False)"
    and n1: "n1 = meter_of ((xs @ [(p1, input_size env x)])
                 @ map (test_top1_sample env (world (emit (Forward False) t))) bs)"
    by blast
  have sample: "test_top1_sample env (world t) b = (p1, input_size env x)"
    by (simp add: test_top1_sample_def b acc)
  from st r w q ev n1 sample show ?case
    by (simp add: emit_def replicate_app_Cons_same)
qed


lemma prepare_dataloaders_sel:
  "events (prepare_dataloaders env sec t) = events t"
  "config (prepare_dataloaders env sec t) = config t"
  "train_queue (prepare_dataloaders env sec t) = fst (get_train_val_loaders env sec)"
  "test_queue (prepare_dataloaders env sec t) = snd (snd (get_train_val_loaders env sec))"
  by (simp_all add: prepare_dataloaders_def split: prod.splits)

lemma evaluate_runs:
  assumes nq: "\<forall>w. \<not> queryable env w" and sz: "\<forall>l. 0 < size0 env l"
    and isz: "\<forall>x. 0 < input_size env x"
  shows "\<exists>t' top1 top5 s.
           evaluate env True search_model resume_from t = Inr (t', Some (top1, top5))
         \<and> events t' = events t
              @ load_events (save (config t) @ ''/search'')
                  (resolve_search_model (config t) search_model)
              @ [GetFinalArchitecture, ArchTo, ResetWeights]
              @ load_events (save (config t) @ ''/eval'') resume_from
              @ [ArchTrain]
              @ retrain_events (grad_clip (config t) \<noteq> 0)
                  (length (fst (get_train_val_loaders env Evaluation)))
                  (evaluation_epochs (config t)) (py_range s (evaluation_epochs (config t)))
              @ [ArchEval]
              @ replicate (length (test_queue t')) (Forward False)
         \<and> test_queue t' = snd (snd (get_train_val_loaders env Evaluation))
         \<and> top1 = meter_of (map (test_top1_sample env (world t')) (test_queue t'))
         \<and> (\<not> truthy resume_from \<longrightarrow> s = 0)
         \<and> (\<exists>w. world t' = set_training env False w)"
proof -
  let ?t1 = "prepare_dataloaders env Evaluation t"
  let ?sm = "resolve_search_model (config ?t1) search_model"
  obtain s0 t2 where su: "setup_checkpointers env ?sm True ?t1 = (s0, t2)"
    by (cases "setup_checkpointers env ?sm True ?t1")
  note ef = setup_checkpointers_effect [OF su]
  from setup_checkpointers_events [of env ?sm True ?t1] su
  have ev2: "events t2 = events t @ load_events (save (config t) @ ''/search'')
                                     (resolve_search_model (config t) search_model)"
    by (simp add: prepare_dataloaders_sel)
  let ?t3 = "emit ArchTo (emit GetFinalArchitecture t2)"
  from ef(3,7,9) have q3: "config ?t3 = config t"
    "train_queue ?t3 = fst (get_train_val_loaders env Evaluation)"
    "test_queue ?t3 = snd (snd (get_train_val_loaders env Evaluation))"
    by (simp_all add: emit_def prepare_dataloaders_sel)
  from retrain_runs [OF sz, of resume_from ?t3] obtain t4 s where
    rt: "retrain env resume_from ?t3 = Inr t4"
    and ev4: "events t4 = events ?t3 @ [ResetWeights]
                @ load_events (save (config ?t3) @ ''/eval'') resume_from @ [ArchTrain]
                @ retrain_events (grad_clip (config ?t3) \<noteq> 0) (length (train_queue ?t3))
                    (evaluation_epochs (config ?t3)) (py_range s (evaluation_epochs (config ?t3)))"
    and q4: "test_queue t4 = test_queue ?t3" "config t4 = config ?t3"
    and s0: "\<not> truthy resume_from \<longrightarrow> s = 0"
    by blast
  let ?t5 = "emit ArchEval (t4\<lparr>world := set_training env False (world t4)\<rparr>)"
  from test_steps_run [OF isz, of "test_queue t4" ?t5 "[]" reset] obtain t' m1 m5 where
    ts: "for_each (test_step env) (test_queue t4) (?t5, meter_of [], reset) = Inr (t', m1, m5)"
    and w: "world t' = world ?t5" and q: "test_queue t' = test_queue ?t5"
    and ev: "events t' = events ?t5 @ replicate (length (test_queue t4)) (Forward False)"
    and m1: "m1 = meter_of ([] @ map (test_top1_sample env (world ?t5)) (test_queue t4))"
    by blast
  from ts have mt: "measure_test env t4 = Inr (t', m1, m5)"
    by (simp add: measure_test_def meter_of_Nil)
  from nq su rt mt have res:
    "evaluate env True search_model resume_from t = Inr (t', Some (m1, m5))"
    by (simp add: evaluate_def Let_def emit_def)
  from q q4 q3 have tq: "test_queue t' = snd (snd (get_train_val_loaders env Evaluation))"
    by (simp add: emit_def)
  from q q4 have tq4: "test_queue t4 = test_queue t'" by (simp add: emit_def)
  from ev ev4 ev2 q3 tq4 have "events t' = events t
              @ load_events (save (config t) @ ''/search'')
                  (resolve_search_model (config t) search_model)
              @ [GetFinalArchitecture, ArchTo, ResetWeights]
              @ load_events (save (config t) @ ''/eval'') resume_from
              @ [ArchTrain]
              @ retrain_events (grad_clip (config t) \<noteq> 0)
                  (length (fst (get_train_val_loaders env Evaluation)))
                  (evaluation_epochs (config t)) (py_range s (evaluation_epochs (config t)))
              @ [ArchEval]
              @ replicate (length (test_queue t')) (Forward False)"
    by (simp add: emit_def)
  moreover from m1 w tq4 have "m1 = meter_of (map (test_top1_sample env (world t')) (test_queue t'))"
    by simp
  moreover from w have "\<exists>w. world t' = set_training env False w"
    by (auto simp: emit_def)
  ultimately show ?thesis using res tq s0 by blast
qed



lemma env0_loaders:
  "get_train_val_loaders env0 sec = ([(50, 1), (70, 2)], [(60, 1), (80, 2)], [(90, 3)])"
  by (simp add: env0_def)

lemma resolve_cfg0:
  "resolve_search_model cfg0 (PStr []) = PTuple [PStr ''run/search/model_final.pth'']"
  by (simp add: resolve_search_model_def cfg0_def path_join_def)

lemma cfg0_sel:
  "save cfg0 = ''run''" "evaluation_epochs cfg0 = 1" "search_epochs cfg0 = 2" "grad_clip cfg0 = 5"
  by (simp_all add: cfg0_def)


text \<open>
  Claim C5 says that an empty \<open>search_model\<close> is resolved to the string
  \<open><save>/search/model_final.pth\<close>. The assignment in line 210 ends in a comma: what
  \<open>evaluate\<close> passes to the checkpoint setup, and the setup to \<open>resume_or_load\<close>, is a
  one-element tuple holding that string, not the string.
\<close>

theorem evaluate_default_search_model_is_tuple:
  "\<not> truthy (PStr [])
   \<and> resolve_search_model cfg0 (PStr []) = PTuple [PStr ''run/search/model_final.pth'']
   \<and> resolve_search_model cfg0 (PStr []) \<noteq> PStr ''run/search/model_final.pth''
   \<and> (\<exists>t' r evs. evaluate env0 True (PStr []) (PStr []) trainer0 = Inr (t', r)
         \<and> events t' =
             ResumeOrLoad ''run/search'' (PTuple [PStr ''run/search/model_final.pth'']) # evs
         \<and> ResumeOrLoad ''run/search'' (PStr ''run/search/model_final.pth'') \<notin> set (events t'))"
proof -
  have h: "\<forall>w. \<not> queryable env0 w" "\<forall>l. 0 < size0 env0 l" "\<forall>x. 0 < input_size env0 x"
    by (simp_all add: env0_sel)
  from evaluate_runs [OF h, of "PStr []" "PStr []" trainer0]
  obtain t' top1 top5 s where
    r: "evaluate env0 True (PStr []) (PStr []) trainer0 = Inr (t', Some (top1, top5))"
    and ev: "events t' = events trainer0
              @ load_events (save (config trainer0) @ ''/search'')
                  (resolve_search_model (config trainer0) (PStr []))
              @ [GetFinalArchitecture, ArchTo, ResetWeights]
              @ load_events (save (config trainer0) @ ''/eval'') (PStr [])
              @ [ArchTrain]
              @ retrain_events (grad_clip (config trainer0) \<noteq> 0)
                  (length (fst (get_train_val_loaders env0 Evaluation)))
                  (evaluation_epochs (config trainer0))
                  (py_range s (evaluation_epochs (config trainer0)))
              @ [ArchEval]
              @ replicate (length (test_queue t')) (Forward False)"
    by blast
  let ?evs = "[GetFinalArchitecture, ArchTo, ResetWeights, ArchTrain]
              @ retrain_events True 2 1 (py_range s 1)
              @ [ArchEval]
              @ replicate (length (test_queue t')) (Forward False)"
  from ev have e1: "events t' =
      ResumeOrLoad ''run/search'' (PTuple [PStr ''run/search/model_final.pth'']) # ?evs"
    by (simp add: trainer0_fresh resolve_cfg0 cfg0_sel env0_loaders load_events_def
          numeral_2_eq_2)
  have "ResumeOrLoad ''run/search'' (PStr ''run/search/model_final.pth'') \<notin> set ?evs"
    by (auto simp: retrain_events_def)
  with e1 have e2: "ResumeOrLoad ''run/search'' (PStr ''run/search/model_final.pth'')
                      \<notin> set (events t')"
    by simp
  from r e1 e2 show ?thesis by (simp add: resolve_cfg0)
qed

section \<open>Properties of the comparison plots\<close>















section \<open>The anytime results and the checkpoints of the search\<close>

lemma search_steps_world:
  assumes "for_each (search_step env) pairs t = Inr t'"
  shows "world t' = world_after_steps env pairs (world t)"
  using assms
proof (induction pairs arbitrary: t)
  case Nil
  then show ?case by simp
next
  case (Cons pair pairs)
  from Cons.prems obtain t1 where
    st: "search_step env pair t = Inr t1" and rest: "for_each (search_step env) pairs t1 = Inr t'"
    by (auto split: sum.splits)
  obtain lt lv a b w where sr: "step env (fst pair) (snd pair) (world t) = ((lt, lv, a, b), w)"
    by (cases "step env (fst pair) (snd pair) (world t)") auto
  from search_step_meters(1) [OF st sr] have "world t1 = w" .
  with Cons.IH [OF rest] sr show ?case by simp
qed

lemma epoch_end_world:
  assumes "epoch_end env e t = Inr t'"
  shows "world t' = world t"
  using assms
  by (auto simp: epoch_end_def then_do_eq_Inr record_anytime_Inr emit_def log_to_json_def
        log_and_reset_accuracies_def Let_def)

lemma checkpoint_step_world:
  assumes "checkpoint_step env e t = Inr t'"
  shows "\<exists>c pc. checkpointer t = Some c \<and> periodic_checkpointer t = Some pc
           \<and> world t' = periodic_step env (save_dir c) pc e (world t)"
  using assms by (auto simp: checkpoint_step_Inr emit_def)

lemma search_epoch_anytime:
  assumes ep: "search_epoch env e t = Inr t'"
  shows "\<exists>tp. epoch_end env e tp = Inr t' \<and> world tp = anytime_world env e t
           \<and> test_acc (errors tp) = test_acc (errors t)
           \<and> test_loss (errors tp) = test_loss (errors t)"
proof (cases "using_step_function env")
  case False
  obtain x1 x2 x3 x4 where st: "train_statistics env (new_epoch env e (world t)) = (x1, x2, x3, x4)"
    by (cases "train_statistics env (new_epoch env e (world t))") auto
  define tp where "tp = t\<lparr>world := new_epoch env e (world t),
               events := events t @ [NewEpoch e],
               clock := Suc (Suc (clock t)),
               errors := append_epoch x1 x2 x3 x4
                  (time env (Suc (clock t)) - time env (clock t)) (errors t),
               train_top1 := (train_top1 t)\<lparr>avg := x1\<rparr>,
               val_top1 := (val_top1 t)\<lparr>avg := x3\<rparr>\<rparr>"
  from ep False st have "epoch_end env e tp = Inr t'"
    by (simp add: search_epoch_def Let_def emit_def tp_def)
  moreover from False have "world tp = anytime_world env e t"
    by (simp add: tp_def anytime_world_def)
  moreover have "test_acc (errors tp) = test_acc (errors t)"
    "test_loss (errors tp) = test_loss (errors t)"
    by (simp_all add: tp_def)
  ultimately show ?thesis by blast
next
  case True
  define t1 where "t1 = (emit (NewEpoch e) (t\<lparr>world := new_epoch env e (world t)\<rparr>))
                           \<lparr>clock := Suc (clock t)\<rparr>"
  from ep True obtain t2 t4 where
    loop: "for_each (search_step env) (zip (train_queue t1) (valid_queue t1)) t1 = Inr t2"
    and ck: "checkpoint_step env e
               (emit SchedulerStep (t2\<lparr>world := scheduler_step env (world t2)\<rparr>)) = Inr t4"
    and fin: "epoch_end env e
                (t4\<lparr>clock := clock t4 + 1,
                    errors := append_epoch (avg (train_top1 t4)) (avg (train_loss_meter t4))
                                (avg (val_top1 t4)) (avg (val_loss_meter t4))
                                (time env (clock t4) - time env (clock t)) (errors t4)\<rparr>) = Inr t'"
    by (auto simp: search_epoch_def Let_def then_do_eq_Inr get_scheduler_Inr t1_def emit_def)
  let ?tp = "t4\<lparr>clock := clock t4 + 1,
                    errors := append_epoch (avg (train_top1 t4)) (avg (train_loss_meter t4))
                                (avg (val_top1 t4)) (avg (val_loss_meter t4))
                                (time env (clock t4) - time env (clock t)) (errors t4)\<rparr>"
  from search_steps_world [OF loop] have w2:
    "world t2 = world_after_steps env (zip (train_queue t) (valid_queue t)) (new_epoch env e (world t))"
    by (simp add: t1_def emit_def)
  from search_steps_frame [OF loop] have fr:
    "checkpointer t2 = checkpointer t" "periodic_checkpointer t2 = periodic_checkpointer t"
    "errors t2 = errors t"
    by (simp_all add: same_attrs_def t1_def emit_def)
  from checkpoint_step_world [OF ck] obtain c pc where
    c: "checkpointer t2 = Some c" and pc: "periodic_checkpointer t2 = Some pc"
    and w4: "world t4 = periodic_step env (save_dir c) pc e (scheduler_step env (world t2))"
    by (auto simp: emit_def)
  from True c pc fr w2 w4 have "world ?tp = anytime_world env e t"
    by (simp add: anytime_world_def)
  moreover from checkpoint_step_effect(2) [OF ck] fr(3) have
    "test_acc (errors ?tp) = test_acc (errors t)" "test_loss (errors ?tp) = test_loss (errors t)"
    by (simp_all add: emit_def)
  ultimately show ?thesis using fin by blast
qed

lemma search_epoch_test_lists:
  assumes ep: "search_epoch env e t = Inr t'"
  shows "world t' = anytime_world env e t"
    and "(test_statistics env (anytime_world env e t) = []
            \<and> test_acc (errors t') = test_acc (errors t)
            \<and> test_loss (errors t') = test_loss (errors t))
         \<or> (\<exists>a b rest. test_statistics env (anytime_world env e t) = a # b # rest
               \<and> test_acc (errors t') = test_acc (errors t) @ [a]
               \<and> test_loss (errors t') = test_loss (errors t) @ [b])"
proof -
  from search_epoch_anytime [OF ep] obtain tp where
    fin: "epoch_end env e tp = Inr t'" and w: "world tp = anytime_world env e t"
    and ta: "test_acc (errors tp) = test_acc (errors t)"
    and tl: "test_loss (errors tp) = test_loss (errors t)"
    by blast
  from epoch_end_world [OF fin] w show "world t' = anytime_world env e t" by simp
  from epoch_end_effect(9) [OF fin] w ta tl
  show "(test_statistics env (anytime_world env e t) = []
            \<and> test_acc (errors t') = test_acc (errors t)
            \<and> test_loss (errors t') = test_loss (errors t))
         \<or> (\<exists>a b rest. test_statistics env (anytime_world env e t) = a # b # rest
               \<and> test_acc (errors t') = test_acc (errors t) @ [a]
               \<and> test_loss (errors t') = test_loss (errors t) @ [b])"
    by simp
qed



lemma anytime_world_env0:
  assumes "train_queue t = [(50, 1), (70, 2)]" and "valid_queue t = [(60, 1), (80, 2)]"
  shows "anytime_world env0 e t = world t + 3"
  using assms
  by (simp add: anytime_world_def env0_def Let_def split: option.splits)

lemma loop_start_env0_queues:
  "train_queue (loop_start env0 (PStr []) trainer0) = [(50, 1), (70, 2)]"
  "valid_queue (loop_start env0 (PStr []) trainer0) = [(60, 1), (80, 2)]"
  "world (loop_start env0 (PStr []) trainer0) = 0"
  by (simp_all add: loop_start_def setup_checkpointers_def trainer0_def init_def
        prepare_dataloaders_def env0_def emit_def Let_def)

lemma test_statistics_env0:
  "test_statistics env0 3 = []" "test_statistics env0 6 = [85, 1]"
  by (simp_all add: env0_def)

text \<open>
  Claim C9. The lists of \<open>errors_dict\<close> start empty; whenever the epoch loop has
  completed some epochs, \<open>train_acc\<close>, \<open>train_loss\<close>, \<open>valid_acc\<close>, \<open>valid_loss\<close>
  and \<open>runtime\<close> have each grown by the number of completed epochs, while \<open>test_acc\<close>
  and \<open>test_loss\<close> have one common length that is at most that number. In a completed
  epoch the two test lists stay as they are exactly when \<open>optimizer.test_statistics()\<close>,
  called in the world that the epoch has reached, returns a falsy result; when it returns a
  truthy one, its first entry is appended to \<open>test_acc\<close> and its second to \<open>test_loss\<close>.
\<close>

theorem errors_dict_lengths_invariant:
  "lists_inv 0 (errors (init env cfg w f))
   \<and> (lists_inv k (errors t) \<and> for_each (search_epoch env) es t = Inr t'
        \<longrightarrow> lists_inv (k + length es) (errors t'))
   \<and> (search_epoch env e u = Inr u'
        \<longrightarrow> world u' = anytime_world env e u
          \<and> ((test_statistics env (anytime_world env e u) = []
                \<and> test_acc (errors u') = test_acc (errors u)
                \<and> test_loss (errors u') = test_loss (errors u))
             \<or> (\<exists>a b rest. test_statistics env (anytime_world env e u) = a # b # rest
                   \<and> test_acc (errors u') = test_acc (errors u) @ [a]
                   \<and> test_loss (errors u') = test_loss (errors u) @ [b])))"
proof (intro conjI impI)
  show "lists_inv 0 (errors (init env cfg w f))" by (rule init_fresh(3))
next
  assume a: "lists_inv k (errors t) \<and> for_each (search_epoch env) es t = Inr t'"
  then have "for_each (search_epoch env) es t = Inr t'" and "lists_inv k (errors t)" by simp_all
  then show "lists_inv (k + length es) (errors t')" by (rule search_loop_lists)
next
  assume ep: "search_epoch env e u = Inr u'"
  from search_epoch_test_lists(1) [OF ep] show "world u' = anytime_world env e u" .
  from search_epoch_test_lists(2) [OF ep]
  show "(test_statistics env (anytime_world env e u) = []
                \<and> test_acc (errors u') = test_acc (errors u)
                \<and> test_loss (errors u') = test_loss (errors u))
             \<or> (\<exists>a b rest. test_statistics env (anytime_world env e u) = a # b # rest
                   \<and> test_acc (errors u') = test_acc (errors u) @ [a]
                   \<and> test_loss (errors u') = test_loss (errors u) @ [b])" .
qed

theorem errors_dict_lengths_invariant_witness:
  "\<exists>u' t'. search_epoch env0 0 (loop_start env0 (PStr []) trainer0) = Inr u'
     \<and> search_epoch env0 1 u' = Inr t'
     \<and> for_each (search_epoch env0) [0, 1] (loop_start env0 (PStr []) trainer0) = Inr t'
     \<and> lists_inv 2 (errors t')
     \<and> test_statistics env0 (anytime_world env0 0 (loop_start env0 (PStr []) trainer0)) = []
     \<and> test_acc (errors u') = [] \<and> test_loss (errors u') = []
     \<and> test_statistics env0 (anytime_world env0 1 u') = [85, 1]
     \<and> test_acc (errors t') = [85] \<and> test_loss (errors t') = [1]"
proof -
  let ?t = "loop_start env0 (PStr []) trainer0"
  have rd: "ready env0 ?t"
    by (rule loop_start_effect(11)) (simp add: env0_def)
  from search_epoch_returns [OF well_behaved_env0(1) rd] obtain u' where
    ep0: "search_epoch env0 0 ?t = Inr u'"
    by blast
  from search_epoch_effect(1) [OF ep0] have st: "same_static ?t u'" .
  from st rd have rd1: "ready env0 u'" by (rule ready_static)
  from search_epoch_returns [OF well_behaved_env0(1) rd1] obtain t' where
    ep1: "search_epoch env0 1 u' = Inr t'"
    by blast
  from ep0 ep1 have run: "for_each (search_epoch env0) [0, 1] ?t = Inr t'" by simp
  have l0: "lists_inv 0 (errors ?t)"
    by (simp add: loop_start_effect(1) trainer0_def init_fresh(3))
  have e0: "test_acc (errors ?t) = []" "test_loss (errors ?t) = []"
    by (simp_all add: loop_start_effect(1) trainer0_fresh)
  note th0 = errors_dict_lengths_invariant [of env0 cfg0 0 fs0 0 ?t "[0, 1]" t' 0 ?t u']
  note th1 = errors_dict_lengths_invariant [of env0 cfg0 0 fs0 0 ?t "[0, 1]" t' 1 u' t']
  from th0 [THEN conjunct2, THEN conjunct1, THEN mp, OF conjI [OF l0 run]]
  have a: "lists_inv 2 (errors t')" by (simp add: numeral_2_eq_2)
  have w0: "anytime_world env0 0 ?t = 3"
    by (simp add: anytime_world_env0 loop_start_env0_queues)
  from th0 [THEN conjunct2, THEN conjunct2, THEN mp, OF ep0] w0
  have wu: "world u' = 3"
    and b: "test_acc (errors u') = [] \<and> test_loss (errors u') = []"
    by (simp_all add: test_statistics_env0 e0)
  from st have q: "train_queue u' = [(50, 1), (70, 2)]" "valid_queue u' = [(60, 1), (80, 2)]"
    by (simp_all add: same_static_def loop_start_env0_queues)
  have w1: "anytime_world env0 1 u' = 6"
    by (simp add: anytime_world_env0 [OF q] wu)
  from th1 [THEN conjunct2, THEN conjunct2, THEN mp, OF ep1] w1 b
  have c: "test_acc (errors t') = [85] \<and> test_loss (errors t') = [1]"
    by (simp add: test_statistics_env0)
  from ep0 ep1 run a b c w0 w1 show ?thesis
    by (auto simp: test_statistics_env0)
qed







end
